theory Spec2Isabelle
  imports Main "HOL-Library.Multiset"
begin

section \<open>Boundary conditions of the Robin/Neumann/Dirichlet notebook\<close>

text \<open>
  The development follows \<^verbatim>\<open>chapter3/robin_neumann_dirichlet.ipynb\<close>: the class
  \<^verbatim>\<open>BoundaryCondition\<close>, the list \<^verbatim>\<open>boundary_conditions\<close>, the loop that
  sorts every condition into \<^verbatim>\<open>bcs\<close> or adds it to the form \<^verbatim>\<open>F\<close>, and the loop
  that builds \<^verbatim>\<open>facet_tag\<close>.

  The finite element library and the form language are not part of the repository. The
  objects they return are kept symbolic: a call that returns builds a term that records
  the call and its arguments. A call can also refuse its arguments. The operators of the
  form language refuse what is not an expression; that is written out. Whether a call
  into the mesh library (interpolation, the lookup of a marker, the location of degrees
  of freedom, the Dirichlet condition, the measure of a marker) refuses is not known from
  the notebook, so it is a parameter of the model. What the notebook's own Python does
  (the comparison of the kind string, the explicit \<^verbatim>\<open>raise\<close>, subscripting
  \<^verbatim>\<open>values\<close>, rebinding \<^verbatim>\<open>F\<close>, appending to \<^verbatim>\<open>bcs\<close>) is modelled step by step.
\<close>

subsection \<open>Python objects\<close>

type_synonym marker = int

text \<open>
  The array pair handed to \<^verbatim>\<open>meshtags(mesh, fdim, indices, values)\<close>; the mesh and
  \<^verbatim>\<open>fdim\<close> are fixed throughout the notebook and left implicit.
\<close>

record meshtags =
  tag_indices :: "int list"
  tag_values :: "int list"

text \<open>
  The objects that may be passed as \<^verbatim>\<open>values\<close> and the expressions built from them:
  a Python function of position (\<^verbatim>\<open>u_ex\<close>), an opaque expression of the form language
  (\<^verbatim>\<open>r\<close>, \<^verbatim>\<open>s\<close>, \<^verbatim>\<open>g\<close>), the trial function \<^verbatim>\<open>u\<close>, the test function \<^verbatim>\<open>v\<close>,
  a Python pair, and the results of \<^verbatim>\<open>a - b\<close>, \<^verbatim>\<open>a * b\<close> and \<^verbatim>\<open>inner(a, b)\<close>.
  The function space of the notebook is scalar, and so is every expression of the model.
\<close>

datatype obj =
    Callable string
  | Coefficient string
  | TrialFunction
  | TestFunction
  | Tuple obj obj
  | Sub obj obj
  | Mul obj obj
  | Inner obj obj

type_synonym "values" = obj

text \<open>The objects that are expressions of the form language.\<close>

fun is_expr :: "obj \<Rightarrow> bool" where
  "is_expr (Callable f) = False"
| "is_expr (Tuple a b) = False"
| "is_expr (Sub a b) = (is_expr a \<and> is_expr b)"
| "is_expr (Mul a b) = (is_expr a \<and> is_expr b)"
| "is_expr (Inner a b) = (is_expr a \<and> is_expr b)"
| "is_expr e = True"

datatype error =
    TypeError string
  | IndexError string
  | ValueError string
  | OverflowError string
  | NameError string
  | AttributeError string

text \<open>\<^verbatim>\<open>dx\<close>, and \<^verbatim>\<open>ds(marker)\<close> for \<^verbatim>\<open>ds = Measure("ds", domain=mesh, subdomain_data=facet_tag)\<close>.\<close>

datatype measure = Dx | Ds meshtags marker

text \<open>
  \<^verbatim>\<open>integrand * measure\<close> is a form with one integral; a form is the list of its
  integrals. The list keeps the integrals in the order in which they were added; the
  library keeps them sorted by kind of measure and marker, which changes neither the
  integrals of a form nor its value.
\<close>

datatype integral = Integral obj measure

type_synonym form = "integral list"

text \<open>
  The library objects of the Dirichlet branch, one constructor per call:
  \<^verbatim>\<open>u_D = Function(V); u_D.interpolate(values)\<close>, \<^verbatim>\<open>facet_tag.find(marker)\<close>,
  \<^verbatim>\<open>locate_dofs_topological(V, fdim, facets)\<close> and \<^verbatim>\<open>dirichletbc(u_D, dofs)\<close>.
\<close>

datatype fem_function = Interpolate "values"

datatype facets = Find meshtags marker

datatype dofs = Locate_dofs_topological facets

datatype dirichletbc = Dirichletbc fem_function dofs

text \<open>What \<^verbatim>\<open>self._bc\<close> can hold: a Dirichlet condition or a form.\<close>

datatype bc_object = Bc_dirichlet dirichletbc | Bc_form form

record BoundaryCondition =
  priv_type :: string
  priv_bc :: bc_object

text \<open>The two properties of the class.\<close>

definition bc :: "BoundaryCondition \<Rightarrow> bc_object" where
  "bc self = priv_bc self"

definition type_of_bc :: "BoundaryCondition \<Rightarrow> string" where
  "type_of_bc self = priv_type self"

subsection \<open>Calls that can refuse\<close>

text \<open>A statement that raises ends the sequence of statements it is in.\<close>

definition and_then :: "error + 'a \<Rightarrow> ('a \<Rightarrow> error + 'b) \<Rightarrow> error + 'b" where
  "and_then x f = (case x of Inl e \<Rightarrow> Inl e | Inr a \<Rightarrow> f a)"

text \<open>
  \<^verbatim>\<open>values[i]\<close>: a pair has components 0 and 1, a Python function is not
  subscriptable, and a scalar expression of the form language has no component.
\<close>

fun subscript :: "values \<Rightarrow> nat \<Rightarrow> error + obj" where
  "subscript (Tuple a b) i =
     (if i = 0 then Inr a else if i = 1 then Inr b
      else Inl (IndexError ''tuple index out of range''))"
| "subscript (Callable f) i = Inl (TypeError ''object is not subscriptable'')"
| "subscript e i = Inl (IndexError ''a scalar expression cannot be indexed'')"

text \<open>
  The operators of the form language. \<^verbatim>\<open>inner(a, b)\<close> converts both arguments to
  expressions and raises \<^verbatim>\<open>ValueError\<close> for a Python function or a pair;
  \<^verbatim>\<open>a - b\<close> and \<^verbatim>\<open>a * b\<close> on such an operand end in Python's \<^verbatim>\<open>TypeError\<close>.
\<close>

definition ufl_inner :: "obj \<Rightarrow> obj \<Rightarrow> error + obj" where
  "ufl_inner a b =
     (if is_expr a \<and> is_expr b then Inr (Inner a b)
      else Inl (ValueError ''Invalid type conversion''))"

definition ufl_sub :: "obj \<Rightarrow> obj \<Rightarrow> error + obj" where
  "ufl_sub a b =
     (if is_expr a \<and> is_expr b then Inr (Sub a b)
      else Inl (TypeError ''unsupported operand type(s) for -''))"

definition ufl_mul :: "obj \<Rightarrow> obj \<Rightarrow> error + obj" where
  "ufl_mul a b =
     (if is_expr a \<and> is_expr b then Inr (Mul a b)
      else Inl (TypeError ''unsupported operand type(s) for *''))"

text \<open>
  The calls into the mesh library, with their arguments. A library says for every call
  whether it raises, and what; a call that does not raise returns its symbolic result.
\<close>

datatype library_call =
    Call_interpolate "values"
  | Call_find meshtags marker
  | Call_locate_dofs_topological facets
  | Call_dirichletbc fem_function dofs
  | Call_ds meshtags marker

type_synonym library = "library_call \<Rightarrow> error option"

definition call :: "library \<Rightarrow> library_call \<Rightarrow> 'a \<Rightarrow> error + 'a" where
  "call lib c result = (case lib c of Some e \<Rightarrow> Inl e | None \<Rightarrow> Inr result)"

text \<open>The library accepts every call of a list.\<close>

definition accepts :: "library \<Rightarrow> library_call list \<Rightarrow> bool" where
  "accepts lib cs = list_all (\<lambda>c. lib c = None) cs"

subsection \<open>The constructor\<close>

text \<open>\<^verbatim>\<open>"Unknown boundary condition: {0:s}".format(type)\<close>\<close>

definition unknown_message :: "string \<Rightarrow> string" where
  "unknown_message t = ''Unknown boundary condition: '' @ t"

text \<open>
  \<^verbatim>\<open>BoundaryCondition.__init__(self, type, marker, values)\<close>, with the library and
  the global \<^verbatim>\<open>facet_tag\<close> as first arguments. The branches are tried in the order of
  the source, and in each branch the calls are made in the order in which Python
  evaluates them.
\<close>

definition BoundaryCondition_init ::
  "library \<Rightarrow> meshtags \<Rightarrow> string \<Rightarrow> marker \<Rightarrow> values \<Rightarrow> error + BoundaryCondition" where
  "BoundaryCondition_init lib facet_tag t m vals =
     (if t = ''Dirichlet'' then
        and_then (call lib (Call_interpolate vals) (Interpolate vals)) (\<lambda>u_D.
        and_then (call lib (Call_find facet_tag m) (Find facet_tag m)) (\<lambda>facets.
        and_then (call lib (Call_locate_dofs_topological facets)
                    (Locate_dofs_topological facets)) (\<lambda>dofs.
        and_then (call lib (Call_dirichletbc u_D dofs) (Dirichletbc u_D dofs)) (\<lambda>d.
        Inr \<lparr>priv_type = t, priv_bc = Bc_dirichlet d\<rparr>))))
      else if t = ''Neumann'' then
        and_then (ufl_inner vals TestFunction) (\<lambda>integrand.
        and_then (call lib (Call_ds facet_tag m) (Ds facet_tag m)) (\<lambda>\<mu>.
        Inr \<lparr>priv_type = t, priv_bc = Bc_form [Integral integrand \<mu>]\<rparr>))
      else if t = ''Robin'' then
        and_then (subscript vals 0) (\<lambda>r.
        and_then (subscript vals 1) (\<lambda>s.
        and_then (ufl_sub TrialFunction s) (\<lambda>difference.
        and_then (ufl_inner difference TestFunction) (\<lambda>product.
        and_then (ufl_mul r product) (\<lambda>integrand.
        and_then (call lib (Call_ds facet_tag m) (Ds facet_tag m)) (\<lambda>\<mu>.
        Inr \<lparr>priv_type = t, priv_bc = Bc_form [Integral integrand \<mu>]\<rparr>))))))
      else Inl (TypeError (unknown_message t)))"

text \<open>The calls into the mesh library that the Dirichlet branch makes.\<close>

definition dirichlet_calls :: "meshtags \<Rightarrow> marker \<Rightarrow> values \<Rightarrow> library_call list" where
  "dirichlet_calls facet_tag m vals =
     [Call_interpolate vals, Call_find facet_tag m,
      Call_locate_dofs_topological (Find facet_tag m),
      Call_dirichletbc (Interpolate vals) (Locate_dofs_topological (Find facet_tag m))]"

subsection \<open>The list of conditions and the aggregation loop\<close>

type_synonym spec = "string \<times> marker \<times> values"

text \<open>
  \<^verbatim>\<open>boundary_conditions = [BoundaryCondition(...), ...]\<close>: the elements are built from
  left to right and the first exception ends the cell.
\<close>

fun construct :: "library \<Rightarrow> meshtags \<Rightarrow> spec list \<Rightarrow> error + BoundaryCondition list" where
  "construct lib facet_tag [] = Inr []"
| "construct lib facet_tag ((t, m, vals) # rest) =
     (case BoundaryCondition_init lib facet_tag t m vals of
        Inl e \<Rightarrow> Inl e
      | Inr c \<Rightarrow>
         (case construct lib facet_tag rest of
            Inl e \<Rightarrow> Inl e
          | Inr cs \<Rightarrow> Inr (c # cs)))"

text \<open>The two variables the loop assigns.\<close>

record state =
  F :: form
  bcs :: "bc_object list"

text \<open>
  \<^verbatim>\<open>F += condition.bc\<close>: forms have no in-place addition, so this is
  \<^verbatim>\<open>F = F + condition.bc\<close>; the sum of two forms has the integrals of both, and a
  form plus a Dirichlet condition is a type error.
\<close>

fun form_add :: "form \<Rightarrow> bc_object \<Rightarrow> error + form" where
  "form_add f (Bc_form g) = Inr (f @ g)"
| "form_add f (Bc_dirichlet d) = Inl (TypeError ''unsupported operand type(s) for +'')"

text \<open>
  \<^verbatim>\<open>for condition in boundary_conditions: ...\<close>. The result is the exception, if one
  was raised, and the variables as they are when the loop ends or is left.
\<close>

fun aggregate :: "BoundaryCondition list \<Rightarrow> state \<Rightarrow> error option \<times> state" where
  "aggregate [] st = (None, st)"
| "aggregate (condition # rest) st =
     (if type_of_bc condition = ''Dirichlet'' then
        aggregate rest (st\<lparr>bcs := bcs st @ [bc condition]\<rparr>)
      else
        (case form_add (F st) (bc condition) of
           Inl e \<Rightarrow> (Some e, st)
         | Inr F' \<Rightarrow> aggregate rest (st\<lparr>F := F'\<rparr>)))"

text \<open>
  The two cells in sequence: build the list, then \<^verbatim>\<open>bcs = []\<close> and the loop. An
  exception in the first cell leaves both variables as they were.
\<close>

definition classify_and_accumulate ::
  "library \<Rightarrow> meshtags \<Rightarrow> spec list \<Rightarrow> state \<Rightarrow> error option \<times> state" where
  "classify_and_accumulate lib facet_tag specs st =
     (case construct lib facet_tag specs of
        Inl e \<Rightarrow> (Some e, st)
      | Inr boundary_conditions \<Rightarrow> aggregate boundary_conditions (st\<lparr>bcs := []\<rparr>))"

subsection \<open>Tagging the facets\<close>

text \<open>
  The arrays of the tagging cell hold 32-bit integers: \<^verbatim>\<open>locate_entities\<close> returns
  such an array, \<^verbatim>\<open>np.full_like(facets, marker)\<close> has the element type of
  \<^verbatim>\<open>facets\<close>, and both stacked arrays go through \<^verbatim>\<open>.astype(np.int32)\<close>. An element
  is modelled by its value. \<^verbatim>\<open>astype\<close> wraps around and is the identity on values that
  fit.
\<close>

definition in_int32 :: "int \<Rightarrow> bool" where
  "in_int32 x = (- (2 ^ 31) \<le> x \<and> x < 2 ^ 31)"

text \<open>The values a signed or an unsigned 64-bit integer can hold.\<close>

definition in_64_bits :: "int \<Rightarrow> bool" where
  "in_64_bits x = (- (2 ^ 63) \<le> x \<and> x < 2 ^ 64)"

definition astype_int32 :: "int \<Rightarrow> int" where
  "astype_int32 x = (x + 2 ^ 31) mod 2 ^ 32 - 2 ^ 31"

text \<open>
  \<^verbatim>\<open>np.full_like(a, fill_value)\<close> for a 32-bit array \<open>a\<close> and a Python integer. A
  value that fits fills the array. For a value that does not fit the two major versions
  of the array library differ: version 1 wraps a value that a 64-bit integer can hold and
  refuses a larger one, version 2 refuses both.
\<close>

datatype numpy = NumPy_1 | NumPy_2

definition full_like :: "numpy \<Rightarrow> int list \<Rightarrow> int \<Rightarrow> error + int list" where
  "full_like np a fill_value =
     (if in_int32 fill_value then Inr (replicate (length a) fill_value)
      else if np = NumPy_1 \<and> in_64_bits fill_value then
        Inr (replicate (length a) (astype_int32 fill_value))
      else Inl (OverflowError ''Python integer out of bounds for int32''))"

text \<open>
  \<^verbatim>\<open>for (marker, locator) in boundaries: ...\<close> with the two lists of arrays as
  accumulator; \<^verbatim>\<open>locate_entities(mesh, fdim, locator)\<close> is a parameter.
\<close>

fun tag_loop ::
  "numpy \<Rightarrow> ('l \<Rightarrow> int list) \<Rightarrow> (marker \<times> 'l) list \<Rightarrow> int list list \<times> int list list
     \<Rightarrow> error + int list list \<times> int list list" where
  "tag_loop np locate_entities [] acc = Inr acc"
| "tag_loop np locate_entities ((marker, locator) # rest) (facet_indices, facet_markers) =
     (let facets = locate_entities locator in
      case full_like np facets marker of
        Inl e \<Rightarrow> Inl e
      | Inr filled \<Rightarrow>
          tag_loop np locate_entities rest
            (facet_indices @ [facets], facet_markers @ [filled]))"

text \<open>\<^verbatim>\<open>np.hstack\<close> refuses an empty list of arrays.\<close>

fun hstack :: "int list list \<Rightarrow> error + int list" where
  "hstack [] = Inl (ValueError ''need at least one array to concatenate'')"
| "hstack arrays = Inr (concat arrays)"

text \<open>\<^verbatim>\<open>a[idx]\<close> for an index array: every index must be in range.\<close>

definition take_indices :: "int list \<Rightarrow> nat list \<Rightarrow> error + int list" where
  "take_indices a idx =
     (if list_all (\<lambda>i. i < length a) idx then Inr (map (\<lambda>i. a ! i) idx)
      else Inl (IndexError ''index is out of bounds''))"

text \<open>
  The whole cell. \<^verbatim>\<open>np.argsort\<close> is a parameter: its default algorithm is not
  stable, so all that is known of its result is \<open>is_argsort\<close> below.
\<close>

definition facet_tagging ::
  "numpy \<Rightarrow> ('l \<Rightarrow> int list) \<Rightarrow> (int list \<Rightarrow> nat list) \<Rightarrow> (marker \<times> 'l) list
     \<Rightarrow> error + meshtags" where
  "facet_tagging np locate_entities argsort boundaries =
     (case tag_loop np locate_entities boundaries ([], []) of
        Inl e \<Rightarrow> Inl e
      | Inr (index_arrays, marker_arrays) \<Rightarrow>
          (case hstack index_arrays of
             Inl e \<Rightarrow> Inl e
           | Inr stacked_indices \<Rightarrow>
              (case hstack marker_arrays of
                 Inl e \<Rightarrow> Inl e
               | Inr stacked_markers \<Rightarrow>
                  (let facet_indices = map astype_int32 stacked_indices;
                       facet_markers = map astype_int32 stacked_markers;
                       sorted_facets = argsort facet_indices
                   in (case take_indices facet_indices sorted_facets of
                         Inl e \<Rightarrow> Inl e
                       | Inr sorted_indices \<Rightarrow>
                          (case take_indices facet_markers sorted_facets of
                             Inl e \<Rightarrow> Inl e
                           | Inr sorted_markers \<Rightarrow>
                              Inr \<lparr>tag_indices = sorted_indices,
                                   tag_values = sorted_markers\<rparr>))))))"

text \<open>
  What \<^verbatim>\<open>np.argsort(a)\<close> promises: a permutation of the positions of \<open>a\<close> that lists
  the elements in non-decreasing order.
\<close>

definition is_argsort :: "nat list \<Rightarrow> int list \<Rightarrow> bool" where
  "is_argsort p a = (mset p = mset [0..<length a] \<and> sorted (map (\<lambda>i. a ! i) p))"

text \<open>
  The facets in the order the loop finds them, each with the marker of the boundary whose
  locator found it.
\<close>

definition located_pairs :: "('l \<Rightarrow> int list) \<Rightarrow> (marker \<times> 'l) list \<Rightarrow> (int \<times> int) list" where
  "located_pairs locate_entities boundaries =
     concat (map (\<lambda>(marker, locator). map (\<lambda>f. (f, marker)) (locate_entities locator))
               boundaries)"

text \<open>
  The array \<^verbatim>\<open>facet_indices\<close> after \<^verbatim>\<open>np.hstack(facet_indices).astype(np.int32)\<close>,
  for a list of boundaries that is not empty.
\<close>

definition facet_index_array :: "('l \<Rightarrow> int list) \<Rightarrow> (marker \<times> 'l) list \<Rightarrow> int list" where
  "facet_index_array locate_entities boundaries =
     map astype_int32 (concat (map (\<lambda>(marker, locator). locate_entities locator) boundaries))"

text \<open>
  Every marker of the list and every facet index the locators return fits in 32 bits.
\<close>

definition fits_int32 :: "('l \<Rightarrow> int list) \<Rightarrow> (marker \<times> 'l) list \<Rightarrow> bool" where
  "fits_int32 locate_entities boundaries =
     list_all (\<lambda>(marker, locator). in_int32 marker \<and> list_all in_int32 (locate_entities locator))
       boundaries"

subsection \<open>The two cells on Python's object store\<close>

text \<open>
  To speak about mutation, the cells are modelled a second time on a store of objects.
  A name is bound to an address and the store maps addresses to objects; a name bound
  to an address without an object is undefined. The objects at addresses are the ones
  the cells create or rebind: forms, the list \<^verbatim>\<open>bcs\<close> and the list
  \<^verbatim>\<open>boundary_conditions\<close>. Objects that are only read after their construction
  (conditions, Dirichlet conditions, the forms held by conditions) are kept by value.
  New objects are placed at \<open>next_addr\<close>, above every object in use.
\<close>

datatype pyobject =
    Form_object form
  | Bcs_list "bc_object list"
  | Conditions_list "BoundaryCondition list"

record memory =
  heap :: "nat \<Rightarrow> pyobject option"
  next_addr :: nat
  var_F :: nat
  var_bcs :: nat
  var_boundary_conditions :: nat

text \<open>A new object, and the address it is placed at.\<close>

definition alloc :: "pyobject \<Rightarrow> memory \<Rightarrow> nat \<times> memory" where
  "alloc ob mem =
     (next_addr mem,
      mem\<lparr>heap := (heap mem)(next_addr mem \<mapsto> ob), next_addr := Suc (next_addr mem)\<rparr>)"

text \<open>
  The loop on the store. \<^verbatim>\<open>bcs.append(condition.bc)\<close> changes the list object the
  name \<^verbatim>\<open>bcs\<close> is bound to; \<^verbatim>\<open>F += condition.bc\<close> creates the sum as a new form
  and rebinds the name \<^verbatim>\<open>F\<close> to it.
\<close>

fun heap_loop :: "BoundaryCondition list \<Rightarrow> memory \<Rightarrow> error option \<times> memory" where
  "heap_loop [] mem = (None, mem)"
| "heap_loop (condition # rest) mem =
     (if type_of_bc condition = ''Dirichlet'' then
        (case heap mem (var_bcs mem) of
           None \<Rightarrow> (Some (NameError ''bcs''), mem)
         | Some (Bcs_list xs) \<Rightarrow>
             heap_loop rest
               (mem\<lparr>heap := (heap mem)(var_bcs mem \<mapsto> Bcs_list (xs @ [bc condition]))\<rparr>)
         | Some other \<Rightarrow> (Some (AttributeError ''append''), mem))
      else
        (case heap mem (var_F mem) of
           None \<Rightarrow> (Some (NameError ''F''), mem)
         | Some (Form_object f) \<Rightarrow>
             (case form_add f (bc condition) of
                Inl e \<Rightarrow> (Some e, mem)
              | Inr g \<Rightarrow>
                 (case alloc (Form_object g) mem of
                    (a, mem') \<Rightarrow> heap_loop rest (mem'\<lparr>var_F := a\<rparr>)))
         | Some other \<Rightarrow> (Some (TypeError ''unsupported operand type(s) for +''), mem)))"

text \<open>\<^verbatim>\<open>bcs = []\<close> and the loop over the list the name \<^verbatim>\<open>boundary_conditions\<close> is bound to.\<close>

definition aggregation_cell :: "memory \<Rightarrow> error option \<times> memory" where
  "aggregation_cell mem =
     (case alloc (Bcs_list []) mem of
        (a, mem') \<Rightarrow>
          (let mem1 = mem'\<lparr>var_bcs := a\<rparr> in
           case heap mem1 (var_boundary_conditions mem1) of
             None \<Rightarrow> (Some (NameError ''boundary_conditions''), mem1)
           | Some (Conditions_list conditions) \<Rightarrow> heap_loop conditions mem1
           | Some other \<Rightarrow> (Some (TypeError ''object is not iterable''), mem1)))"

text \<open>
  \<^verbatim>\<open>boundary_conditions = [BoundaryCondition(...), ...]\<close> followed by the aggregation
  cell. When a constructor raises, the name is not bound and the second cell is not run.
\<close>

definition notebook_cells ::
  "library \<Rightarrow> meshtags \<Rightarrow> spec list \<Rightarrow> memory \<Rightarrow> error option \<times> memory" where
  "notebook_cells lib facet_tag specs mem =
     (case construct lib facet_tag specs of
        Inl e \<Rightarrow> (Some e, mem)
      | Inr conditions \<Rightarrow>
         (case alloc (Conditions_list conditions) mem of
            (a, mem') \<Rightarrow> aggregation_cell (mem'\<lparr>var_boundary_conditions := a\<rparr>)))"

text \<open>
  What a run hands back: the exception, or the objects the names \<^verbatim>\<open>F\<close> and
  \<^verbatim>\<open>bcs\<close> are bound to at the end.
\<close>

definition outputs :: "error option \<times> memory \<Rightarrow> error + pyobject option \<times> pyobject option" where
  "outputs r =
     (case r of
        (Some e, mem) \<Rightarrow> Inl e
      | (None, mem) \<Rightarrow> Inr (heap mem (var_F mem), heap mem (var_bcs mem)))"

text \<open>The same for the model without a store.\<close>

definition outputs_of_state :: "error option \<times> state \<Rightarrow> error + pyobject option \<times> pyobject option" where
  "outputs_of_state r =
     (case r of
        (Some e, st) \<Rightarrow> Inl e
      | (None, st) \<Rightarrow> Inr (Some (Form_object (F st)), Some (Bcs_list (bcs st))))"

subsection \<open>The value of a form\<close>

text \<open>
  The mathematical reading of the symbolic objects, needed to compare forms that differ
  as terms. An expression has a value at a point once the values of its atoms there are
  given by \<open>\<rho>\<close>; for the scalar fields of the notebook \<^verbatim>\<open>inner(a, b)\<close> is the product.
  An integral over a measure is the weighted sum of the integrand over the quadrature
  points \<open>quad\<close> assigns to the measure, and a form is the sum of its integrals.
  Values are taken in any commutative ring, so the arithmetic is exact.
\<close>

fun pointwise :: "(obj \<Rightarrow> 'a::comm_ring_1) \<Rightarrow> obj \<Rightarrow> 'a" where
  "pointwise \<rho> (Sub a b) = pointwise \<rho> a - pointwise \<rho> b"
| "pointwise \<rho> (Mul a b) = pointwise \<rho> a * pointwise \<rho> b"
| "pointwise \<rho> (Inner a b) = pointwise \<rho> a * pointwise \<rho> b"
| "pointwise \<rho> e = \<rho> e"

fun integral_value ::
  "(measure \<Rightarrow> ('a \<times> 'p) list) \<Rightarrow> ('p \<Rightarrow> obj \<Rightarrow> 'a::comm_ring_1) \<Rightarrow> integral \<Rightarrow> 'a" where
  "integral_value quad \<rho> (Integral e \<mu>) =
     sum_list (map (\<lambda>(w, q). w * pointwise (\<rho> q) e) (quad \<mu>))"

definition form_value ::
  "(measure \<Rightarrow> ('a \<times> 'p) list) \<Rightarrow> ('p \<Rightarrow> obj \<Rightarrow> 'a::comm_ring_1) \<Rightarrow> form \<Rightarrow> 'a" where
  "form_value quad \<rho> f = sum_list (map (integral_value quad \<rho>) f)"

subsection \<open>What the loop adds, in closed form\<close>

text \<open>
  A condition is well formed when its kind string and the object it holds agree, as they
  do for every object the constructor returns.
\<close>

definition well_formed :: "BoundaryCondition \<Rightarrow> bool" where
  "well_formed c =
     (case priv_bc c of
        Bc_dirichlet d \<Rightarrow> priv_type c = ''Dirichlet''
      | Bc_form g \<Rightarrow> priv_type c \<noteq> ''Dirichlet'')"

text \<open>The integrals a condition contributes to \<^verbatim>\<open>F\<close>, and the entries it contributes to \<^verbatim>\<open>bcs\<close>.\<close>

definition natural_terms :: "BoundaryCondition \<Rightarrow> form" where
  "natural_terms c =
     (if priv_type c = ''Dirichlet'' then []
      else (case priv_bc c of Bc_form g \<Rightarrow> g | Bc_dirichlet d \<Rightarrow> []))"

definition essential :: "BoundaryCondition \<Rightarrow> bc_object list" where
  "essential c = (if priv_type c = ''Dirichlet'' then [priv_bc c] else [])"

text \<open>The constructor applied to a specification triple.\<close>

definition build :: "library \<Rightarrow> meshtags \<Rightarrow> spec \<Rightarrow> error + BoundaryCondition" where
  "build lib facet_tag sp =
     (case sp of (t, m, vals) \<Rightarrow> BoundaryCondition_init lib facet_tag t m vals)"

subsection \<open>Specifications and the library calls they lead to\<close>

text \<open>
  A specification of a supported kind whose values suit the kind: anything that is to be
  interpolated for a Dirichlet condition, an expression for a Neumann condition, a pair of
  expressions for a Robin condition.
\<close>

fun suited :: "spec \<Rightarrow> bool" where
  "suited (t, m, vals) =
     (t = ''Dirichlet''
      \<or> (t = ''Neumann'' \<and> is_expr vals)
      \<or> (t = ''Robin'' \<and> (case vals of Tuple r s \<Rightarrow> is_expr r \<and> is_expr s | _ \<Rightarrow> False)))"

text \<open>The calls into the mesh library the constructor makes for a specification.\<close>

fun library_calls :: "meshtags \<Rightarrow> spec \<Rightarrow> library_call list" where
  "library_calls facet_tag (t, m, vals) =
     (if t = ''Dirichlet'' then dirichlet_calls facet_tag m vals else [Call_ds facet_tag m])"


section \<open>Properties\<close>

subsection \<open>The constructor and the two cells\<close>

lemma call_accepted: "lib c = None \<Longrightarrow> call lib c result = Inr result"
  by (simp add: call_def)

lemma call_refused: "call lib c result = Inl e \<longleftrightarrow> lib c = Some e"
  by (simp add: call_def split: option.splits)

lemma init_unknown:
  "t \<noteq> ''Dirichlet'' \<Longrightarrow> t \<noteq> ''Neumann'' \<Longrightarrow> t \<noteq> ''Robin'' \<Longrightarrow>
   BoundaryCondition_init lib ft t m v = Inl (TypeError (unknown_message t))"
  by (simp add: BoundaryCondition_init_def)

lemma init_dirichlet:
  "accepts lib (dirichlet_calls ft m v) \<Longrightarrow>
   BoundaryCondition_init lib ft ''Dirichlet'' m v
   = Inr \<lparr>priv_type = ''Dirichlet'',
          priv_bc = Bc_dirichlet
            (Dirichletbc (Interpolate v) (Locate_dofs_topological (Find ft m)))\<rparr>"
  by (simp add: BoundaryCondition_init_def accepts_def dirichlet_calls_def and_then_def
                call_accepted)

lemma init_neumann:
  "is_expr g \<Longrightarrow> lib (Call_ds ft m) = None \<Longrightarrow>
   BoundaryCondition_init lib ft ''Neumann'' m g
   = Inr \<lparr>priv_type = ''Neumann'',
          priv_bc = Bc_form [Integral (Inner g TestFunction) (Ds ft m)]\<rparr>"
  by (simp add: BoundaryCondition_init_def and_then_def ufl_inner_def call_accepted)

lemma init_robin:
  "is_expr r \<Longrightarrow> is_expr s \<Longrightarrow> lib (Call_ds ft m) = None \<Longrightarrow>
   BoundaryCondition_init lib ft ''Robin'' m (Tuple r s)
   = Inr \<lparr>priv_type = ''Robin'',
          priv_bc = Bc_form
            [Integral (Mul r (Inner (Sub TrialFunction s) TestFunction)) (Ds ft m)]\<rparr>"
  by (simp add: BoundaryCondition_init_def and_then_def ufl_inner_def ufl_sub_def ufl_mul_def
                call_accepted)

lemma subscript_Inr: "subscript v i = Inr a \<Longrightarrow> \<exists>r s. v = Tuple r s"
  by (cases v) (simp_all split: if_splits)

lemma init_returns:
  assumes "BoundaryCondition_init lib ft t m v = Inr c"
  shows "priv_type c = t"
    and "t = ''Dirichlet'' \<or> t = ''Neumann'' \<or> t = ''Robin''"
    and "t = ''Dirichlet'' \<Longrightarrow>
           priv_bc c = Bc_dirichlet
             (Dirichletbc (Interpolate v) (Locate_dofs_topological (Find ft m)))"
    and "t = ''Neumann'' \<Longrightarrow>
           priv_bc c = Bc_form [Integral (Inner v TestFunction) (Ds ft m)]"
    and "t = ''Robin'' \<Longrightarrow>
           \<exists>r s. v = Tuple r s \<and> is_expr r \<and> is_expr s
             \<and> priv_bc c = Bc_form
                  [Integral (Mul r (Inner (Sub TrialFunction s) TestFunction)) (Ds ft m)]"
proof -
  show "priv_type c = t"
    using assms
    by (auto simp: BoundaryCondition_init_def and_then_def call_def
             split: if_splits sum.splits option.splits)
  show "t = ''Dirichlet'' \<or> t = ''Neumann'' \<or> t = ''Robin''"
    using assms by (auto simp: BoundaryCondition_init_def split: if_splits)
  show "priv_bc c = Bc_dirichlet
             (Dirichletbc (Interpolate v) (Locate_dofs_topological (Find ft m)))"
    if "t = ''Dirichlet''"
    using assms that
    by (auto simp: BoundaryCondition_init_def and_then_def call_def
             split: sum.splits option.splits)
  show "priv_bc c = Bc_form [Integral (Inner v TestFunction) (Ds ft m)]"
    if "t = ''Neumann''"
    using assms that
    by (auto simp: BoundaryCondition_init_def and_then_def call_def ufl_inner_def
             split: sum.splits option.splits if_splits)
  show "\<exists>r s. v = Tuple r s \<and> is_expr r \<and> is_expr s
             \<and> priv_bc c = Bc_form
                  [Integral (Mul r (Inner (Sub TrialFunction s) TestFunction)) (Ds ft m)]"
    if "t = ''Robin''"
  proof -
    from assms that obtain a where "subscript v 0 = Inr a"
      by (auto simp: BoundaryCondition_init_def and_then_def split: sum.splits)
    then obtain r s where v: "v = Tuple r s"
      using subscript_Inr by blast
    show ?thesis
      using assms that unfolding v
      by (auto simp: BoundaryCondition_init_def and_then_def call_def ufl_inner_def ufl_sub_def
                     ufl_mul_def
               split: sum.splits option.splits if_splits)
  qed
qed

lemma init_well_formed:
  "BoundaryCondition_init lib ft t m v = Inr c \<Longrightarrow> well_formed c"
  using init_returns [of lib ft t m v c]
  by (auto simp: well_formed_def)

lemma build_well_formed: "build lib ft sp = Inr c \<Longrightarrow> well_formed c"
  by (auto simp: build_def dest: init_well_formed split: prod.splits)

lemma construct_Cons:
  "construct lib ft (sp # rest) =
     (case build lib ft sp of Inl e \<Rightarrow> Inl e
      | Inr c \<Rightarrow> (case construct lib ft rest of Inl e \<Rightarrow> Inl e | Inr cs \<Rightarrow> Inr (c # cs)))"
  by (cases sp) (simp add: build_def)

lemma construct_append:
  "construct lib ft (xs @ ys) =
     (case construct lib ft xs of Inl e \<Rightarrow> Inl e
      | Inr cs \<Rightarrow> (case construct lib ft ys of Inl e \<Rightarrow> Inl e | Inr ds \<Rightarrow> Inr (cs @ ds)))"
  by (induction xs) (auto simp: construct_Cons simp del: construct.simps(2) split: sum.splits)

lemma construct_all_ok:
  "list_all (\<lambda>sp. \<not> isl (build lib ft sp)) specs \<Longrightarrow>
   construct lib ft specs = Inr (map (\<lambda>sp. projr (build lib ft sp)) specs)"
  by (induction specs) (auto simp: construct_Cons simp del: construct.simps(2) split: sum.splits)

lemma construct_some_bad:
  "\<not> list_all (\<lambda>sp. \<not> isl (build lib ft sp)) specs \<Longrightarrow> isl (construct lib ft specs)"
  by (induction specs) (auto simp: construct_Cons simp del: construct.simps(2) split: sum.splits)

lemma construct_error_source:
  "construct lib ft specs = Inl e \<Longrightarrow> \<exists>sp \<in> set specs. build lib ft sp = Inl e"
  by (induction specs) (auto simp: construct_Cons simp del: construct.simps(2) split: sum.splits)

lemma construct_well_formed:
  "construct lib ft specs = Inr cs \<Longrightarrow> list_all well_formed cs"
  by (induction specs arbitrary: cs)
     (auto simp: construct_Cons simp del: construct.simps(2) split: sum.splits dest: build_well_formed)

lemma aggregate_closed:
  "list_all well_formed cs \<Longrightarrow>
   aggregate cs st =
     (None, st\<lparr>F := F st @ concat (map natural_terms cs),
               bcs := bcs st @ concat (map essential cs)\<rparr>)"
proof (induction cs arbitrary: st)
  case Nil
  then show ?case by simp
next
  case (Cons c cs)
  then show ?case
    by (cases "priv_bc c")
       (auto simp: well_formed_def natural_terms_def essential_def bc_def type_of_bc_def)
qed

lemma classify_ok:
  "list_all (\<lambda>sp. \<not> isl (build lib ft sp)) specs \<Longrightarrow>
   classify_and_accumulate lib ft specs st =
     (None, st\<lparr>F := F st @ concat (map (\<lambda>sp. natural_terms (projr (build lib ft sp))) specs),
               bcs := concat (map (\<lambda>sp. essential (projr (build lib ft sp))) specs)\<rparr>)"
proof -
  assume ok: "list_all (\<lambda>sp. \<not> isl (build lib ft sp)) specs"
  then have c: "construct lib ft specs = Inr (map (\<lambda>sp. projr (build lib ft sp)) specs)"
    by (rule construct_all_ok)
  then have "list_all well_formed (map (\<lambda>sp. projr (build lib ft sp)) specs)"
    by (rule construct_well_formed)
  then show ?thesis
    by (simp add: classify_and_accumulate_def c aggregate_closed comp_def)
qed

lemma classify_bad:
  "\<not> list_all (\<lambda>sp. \<not> isl (build lib ft sp)) specs \<Longrightarrow>
   \<exists>e. classify_and_accumulate lib ft specs st = (Some e, st)"
  using construct_some_bad [of lib ft specs]
  by (cases "construct lib ft specs") (auto simp: classify_and_accumulate_def)

lemma classify_error_source:
  assumes "fst (classify_and_accumulate lib ft specs st) = Some e"
  shows "\<exists>sp \<in> set specs. build lib ft sp = Inl e"
proof (cases "construct lib ft specs")
  case (Inl e')
  then have "e' = e"
    using assms by (simp add: classify_and_accumulate_def)
  then show ?thesis
    using Inl construct_error_source by blast
next
  case (Inr cs)
  then have "list_all well_formed cs"
    by (rule construct_well_formed)
  then have "fst (classify_and_accumulate lib ft specs st) = None"
    by (simp add: classify_and_accumulate_def Inr aggregate_closed)
  then show ?thesis
    using assms by simp
qed

subsection \<open>Dispatch on the kind string\<close>

text \<open>
  Claim C9. The constructor accepts exactly the strings \<^verbatim>\<open>"Dirichlet"\<close>,
  \<^verbatim>\<open>"Neumann"\<close> and \<^verbatim>\<open>"Robin"\<close>, compared exactly. Every other string, the
  case variants \<^verbatim>\<open>"dirichlet"\<close> and \<^verbatim>\<open>"NEUMANN"\<close> among them, ends in the
  \<^verbatim>\<open>else\<close> branch with the unknown-kind error, whatever the library does. Each of
  the three strings takes its own branch: with values that suit the kind and a library
  that accepts the calls of the branch, the constructor returns the object of that
  branch, and it never raises the unknown-kind error of its own accord. Whenever the constructor returns an object, its \<^verbatim>\<open>type\<close> property is the
  kind string passed in, which is one of the three, and its \<^verbatim>\<open>bc\<close> property is the
  object the matching branch built.
\<close>

theorem kind_dispatch:
  "(t \<noteq> ''Dirichlet'' \<and> t \<noteq> ''Neumann'' \<and> t \<noteq> ''Robin'' \<longrightarrow>
      BoundaryCondition_init lib ft t m v = Inl (TypeError (''Unknown boundary condition: '' @ t)))
   \<and> (accepts lib (dirichlet_calls ft m v) \<longrightarrow>
        BoundaryCondition_init lib ft ''Dirichlet'' m v
        = Inr \<lparr>priv_type = ''Dirichlet'',
               priv_bc = Bc_dirichlet
                 (Dirichletbc (Interpolate v) (Locate_dofs_topological (Find ft m)))\<rparr>)
   \<and> (is_expr v \<and> lib (Call_ds ft m) = None \<longrightarrow>
        BoundaryCondition_init lib ft ''Neumann'' m v
        = Inr \<lparr>priv_type = ''Neumann'',
               priv_bc = Bc_form [Integral (Inner v TestFunction) (Ds ft m)]\<rparr>)
   \<and> (\<forall>r s. is_expr r \<and> is_expr s \<and> lib (Call_ds ft m) = None \<longrightarrow>
        BoundaryCondition_init lib ft ''Robin'' m (Tuple r s)
        = Inr \<lparr>priv_type = ''Robin'',
               priv_bc = Bc_form
                 [Integral (Mul r (Inner (Sub TrialFunction s) TestFunction)) (Ds ft m)]\<rparr>)
   \<and> (\<forall>c. BoundaryCondition_init lib ft t m v = Inr c \<longrightarrow>
        type_of_bc c = t
        \<and> (type_of_bc c = ''Dirichlet'' \<or> type_of_bc c = ''Neumann'' \<or> type_of_bc c = ''Robin'')
        \<and> (t = ''Dirichlet'' \<longrightarrow>
             bc c = Bc_dirichlet
               (Dirichletbc (Interpolate v) (Locate_dofs_topological (Find ft m))))
        \<and> (t = ''Neumann'' \<longrightarrow>
             bc c = Bc_form [Integral (Inner v TestFunction) (Ds ft m)])
        \<and> (t = ''Robin'' \<longrightarrow>
             (\<exists>r s. v = Tuple r s
                \<and> bc c = Bc_form
                     [Integral (Mul r (Inner (Sub TrialFunction s) TestFunction)) (Ds ft m)])))
   \<and> ((t = ''Dirichlet'' \<or> t = ''Neumann'' \<or> t = ''Robin'')
        \<and> (\<forall>c. lib c \<noteq> Some (TypeError (''Unknown boundary condition: '' @ t))) \<longrightarrow>
        BoundaryCondition_init lib ft t m v
        \<noteq> Inl (TypeError (''Unknown boundary condition: '' @ t)))
   \<and> BoundaryCondition_init lib ft ''dirichlet'' m v
        = Inl (TypeError ''Unknown boundary condition: dirichlet'')
   \<and> BoundaryCondition_init lib ft ''NEUMANN'' m v
        = Inl (TypeError ''Unknown boundary condition: NEUMANN'')"
proof -
  have unknown: "t \<noteq> ''Dirichlet'' \<and> t \<noteq> ''Neumann'' \<and> t \<noteq> ''Robin'' \<longrightarrow>
      BoundaryCondition_init lib ft t m v = Inl (TypeError (''Unknown boundary condition: '' @ t))"
    by (simp add: init_unknown unknown_message_def)
  have returned: "\<forall>c. BoundaryCondition_init lib ft t m v = Inr c \<longrightarrow>
        type_of_bc c = t
        \<and> (type_of_bc c = ''Dirichlet'' \<or> type_of_bc c = ''Neumann'' \<or> type_of_bc c = ''Robin'')
        \<and> (t = ''Dirichlet'' \<longrightarrow>
             bc c = Bc_dirichlet
               (Dirichletbc (Interpolate v) (Locate_dofs_topological (Find ft m))))
        \<and> (t = ''Neumann'' \<longrightarrow>
             bc c = Bc_form [Integral (Inner v TestFunction) (Ds ft m)])
        \<and> (t = ''Robin'' \<longrightarrow>
             (\<exists>r s. v = Tuple r s
                \<and> bc c = Bc_form
                     [Integral (Mul r (Inner (Sub TrialFunction s) TestFunction)) (Ds ft m)]))"
  proof (intro allI impI)
    fix c assume c: "BoundaryCondition_init lib ft t m v = Inr c"
    note r = init_returns [OF c]
    show "type_of_bc c = t
        \<and> (type_of_bc c = ''Dirichlet'' \<or> type_of_bc c = ''Neumann'' \<or> type_of_bc c = ''Robin'')
        \<and> (t = ''Dirichlet'' \<longrightarrow>
             bc c = Bc_dirichlet
               (Dirichletbc (Interpolate v) (Locate_dofs_topological (Find ft m))))
        \<and> (t = ''Neumann'' \<longrightarrow>
             bc c = Bc_form [Integral (Inner v TestFunction) (Ds ft m)])
        \<and> (t = ''Robin'' \<longrightarrow>
             (\<exists>r s. v = Tuple r s
                \<and> bc c = Bc_form
                     [Integral (Mul r (Inner (Sub TrialFunction s) TestFunction)) (Ds ft m)]))"
      using r(1,2) r(3,4) r(5) unfolding type_of_bc_def bc_def by blast
  qed
  have variants:
    "BoundaryCondition_init lib ft ''dirichlet'' m v
        = Inl (TypeError ''Unknown boundary condition: dirichlet'')"
    "BoundaryCondition_init lib ft ''NEUMANN'' m v
        = Inl (TypeError ''Unknown boundary condition: NEUMANN'')"
    by (simp_all add: BoundaryCondition_init_def unknown_message_def)
  have dirichlet: "accepts lib (dirichlet_calls ft m v) \<longrightarrow>
        BoundaryCondition_init lib ft ''Dirichlet'' m v
        = Inr \<lparr>priv_type = ''Dirichlet'',
               priv_bc = Bc_dirichlet
                 (Dirichletbc (Interpolate v) (Locate_dofs_topological (Find ft m)))\<rparr>"
    using init_dirichlet by blast
  have neumann: "is_expr v \<and> lib (Call_ds ft m) = None \<longrightarrow>
        BoundaryCondition_init lib ft ''Neumann'' m v
        = Inr \<lparr>priv_type = ''Neumann'',
               priv_bc = Bc_form [Integral (Inner v TestFunction) (Ds ft m)]\<rparr>"
    using init_neumann by blast
  have robin: "\<forall>r s. is_expr r \<and> is_expr s \<and> lib (Call_ds ft m) = None \<longrightarrow>
        BoundaryCondition_init lib ft ''Robin'' m (Tuple r s)
        = Inr \<lparr>priv_type = ''Robin'',
               priv_bc = Bc_form
                 [Integral (Mul r (Inner (Sub TrialFunction s) TestFunction)) (Ds ft m)]\<rparr>"
    using init_robin by blast
  have own_branch: "(t = ''Dirichlet'' \<or> t = ''Neumann'' \<or> t = ''Robin'')
        \<and> (\<forall>c. lib c \<noteq> Some (TypeError (''Unknown boundary condition: '' @ t))) \<longrightarrow>
        BoundaryCondition_init lib ft t m v
        \<noteq> Inl (TypeError (''Unknown boundary condition: '' @ t))"
  proof (intro impI, elim conjE)
    assume three: "t = ''Dirichlet'' \<or> t = ''Neumann'' \<or> t = ''Robin''"
      and quiet: "\<forall>c. lib c \<noteq> Some (TypeError (''Unknown boundary condition: '' @ t))"
    from three show "BoundaryCondition_init lib ft t m v
        \<noteq> Inl (TypeError (''Unknown boundary condition: '' @ t))"
    proof (elim disjE)
      assume t: "t = ''Dirichlet''"
      show ?thesis
        using quiet unfolding t
        by (auto simp: BoundaryCondition_init_def and_then_def call_def
                 split: sum.splits option.splits)
    next
      assume t: "t = ''Neumann''"
      show ?thesis
        using quiet unfolding t
        by (auto simp: BoundaryCondition_init_def and_then_def call_def ufl_inner_def
                 split: sum.splits option.splits if_splits)
    next
      assume t: "t = ''Robin''"
      show ?thesis
        using quiet unfolding t
        by (cases v)
           (auto simp: BoundaryCondition_init_def and_then_def call_def ufl_inner_def
                       ufl_sub_def ufl_mul_def
                 split: sum.splits option.splits if_splits)
    qed
  qed
  from unknown dirichlet neumann robin returned own_branch variants show ?thesis
    by (intro conjI) assumption+
qed

theorem kind_dispatch_witness:
  "BoundaryCondition_init (\<lambda>c. None) \<lparr>tag_indices = [7], tag_values = [3]\<rparr> ''Periodic'' 3
       (Coefficient ''g'')
     = Inl (TypeError ''Unknown boundary condition: Periodic'')
   \<and> BoundaryCondition_init (\<lambda>c. None) \<lparr>tag_indices = [7], tag_values = [3]\<rparr> ''Dirichlet'' 3
       (Coefficient ''g'')
     = Inr \<lparr>priv_type = ''Dirichlet'',
            priv_bc = Bc_dirichlet (Dirichletbc (Interpolate (Coefficient ''g''))
              (Locate_dofs_topological (Find \<lparr>tag_indices = [7], tag_values = [3]\<rparr> 3)))\<rparr>
   \<and> BoundaryCondition_init (\<lambda>c. None) \<lparr>tag_indices = [7], tag_values = [3]\<rparr> ''Neumann'' 3
       (Coefficient ''g'')
     = Inr \<lparr>priv_type = ''Neumann'',
            priv_bc = Bc_form [Integral (Inner (Coefficient ''g'') TestFunction)
                 (Ds \<lparr>tag_indices = [7], tag_values = [3]\<rparr> 3)]\<rparr>
   \<and> BoundaryCondition_init (\<lambda>c. None) \<lparr>tag_indices = [7], tag_values = [3]\<rparr> ''Robin'' 3
       (Tuple (Coefficient ''r'') (Coefficient ''s''))
     = Inr \<lparr>priv_type = ''Robin'',
            priv_bc = Bc_form
              [Integral (Mul (Coefficient ''r'')
                 (Inner (Sub TrialFunction (Coefficient ''s'')) TestFunction))
                 (Ds \<lparr>tag_indices = [7], tag_values = [3]\<rparr> 3)]\<rparr>
   \<and> type_of_bc \<lparr>priv_type = ''Robin'',
            priv_bc = Bc_form
              [Integral (Mul (Coefficient ''r'')
                 (Inner (Sub TrialFunction (Coefficient ''s'')) TestFunction))
                 (Ds \<lparr>tag_indices = [7], tag_values = [3]\<rparr> 3)]\<rparr> = ''Robin''"
  using kind_dispatch [of "''Periodic''" "\<lambda>c. None" "\<lparr>tag_indices = [7], tag_values = [3]\<rparr>" 3
          "Coefficient ''g''"]
        kind_dispatch [of "''Robin''" "\<lambda>c. None" "\<lparr>tag_indices = [7], tag_values = [3]\<rparr>" 3
          "Tuple (Coefficient ''r'') (Coefficient ''s'')"]
  by (simp add: accepts_def dirichlet_calls_def type_of_bc_def)

subsection \<open>An unsupported kind\<close>

text \<open>
  Claim C1. A specification whose kind string is none of \<^verbatim>\<open>"Dirichlet"\<close>,
  \<^verbatim>\<open>"Neumann"\<close>, \<^verbatim>\<open>"Robin"\<close> makes the constructor raise the unknown-kind error
  (a \<^verbatim>\<open>TypeError\<close> in the notebook), whose message ends in the offending string.
  Any list that contains such a specification makes the whole operation fail before the
  loop starts, so \<^verbatim>\<open>F\<close> and \<^verbatim>\<open>bcs\<close> are what they were before the call; when the
  specifications in front of it can be constructed, the error raised is the one of that
  specification. This holds for every library.
\<close>

theorem unsupported_kind_fails:
  assumes "t \<noteq> ''Dirichlet''" and "t \<noteq> ''Neumann''" and "t \<noteq> ''Robin''"
  shows "BoundaryCondition_init lib ft t m v
           = Inl (TypeError (''Unknown boundary condition: '' @ t))
         \<and> classify_and_accumulate lib ft [(t, m, v)] st
           = (Some (TypeError (''Unknown boundary condition: '' @ t)), st)
         \<and> (\<exists>e. classify_and_accumulate lib ft (before @ (t, m, v) # after) st = (Some e, st))
         \<and> (\<not> isl (construct lib ft before) \<longrightarrow>
              classify_and_accumulate lib ft (before @ (t, m, v) # after) st
                = (Some (TypeError (''Unknown boundary condition: '' @ t)), st))"
proof -
  have i: "BoundaryCondition_init lib ft t m v
             = Inl (TypeError (''Unknown boundary condition: '' @ t))"
    using assms by (simp add: init_unknown unknown_message_def)
  have one: "construct lib ft ((t, m, v) # after)
             = Inl (TypeError (''Unknown boundary condition: '' @ t))"
    by (simp add: i)
  have a: "\<exists>e. classify_and_accumulate lib ft (before @ (t, m, v) # after) st = (Some e, st)"
    by (cases "construct lib ft before")
       (simp_all add: classify_and_accumulate_def construct_append one del: construct.simps(2))
  have b: "\<not> isl (construct lib ft before) \<longrightarrow>
              classify_and_accumulate lib ft (before @ (t, m, v) # after) st
                = (Some (TypeError (''Unknown boundary condition: '' @ t)), st)"
    by (cases "construct lib ft before")
       (simp_all add: classify_and_accumulate_def construct_append one del: construct.simps(2))
  have c: "classify_and_accumulate lib ft [(t, m, v)] st
           = (Some (TypeError (''Unknown boundary condition: '' @ t)), st)"
    by (simp add: classify_and_accumulate_def i)
  from i a b c show ?thesis by blast
qed

theorem unsupported_kind_fails_witness:
  "classify_and_accumulate (\<lambda>c. None) \<lparr>tag_indices = [7], tag_values = [3]\<rparr>
     ([(''Dirichlet'', 1, Callable ''u_ex'')] @ (''Periodic'', 2, Coefficient ''g'')
        # [(''Neumann'', 4, Coefficient ''g'')])
     \<lparr>F = [Integral (Coefficient ''f'') Dx], bcs = [Bc_form []]\<rparr>
   = (Some (TypeError ''Unknown boundary condition: Periodic''),
      \<lparr>F = [Integral (Coefficient ''f'') Dx], bcs = [Bc_form []]\<rparr>)"
  using unsupported_kind_fails [of "''Periodic''" "\<lambda>c. None"
          "\<lparr>tag_indices = [7], tag_values = [3]\<rparr>"
          2 "Coefficient ''g''" "\<lparr>F = [Integral (Coefficient ''f'') Dx], bcs = [Bc_form []]\<rparr>"
          "[(''Dirichlet'', 1, Callable ''u_ex'')]" "[(''Neumann'', 4, Coefficient ''g'')]"]
  by (simp add: BoundaryCondition_init_def and_then_def call_def)

subsection \<open>Values the constructor refuses\<close>

text \<open>
  A Python function is no expression of the form language, and a scalar expression has no
  components: the Robin and Neumann branches raise on them, whatever the library does.
\<close>

lemma robin_refuses_functions:
  "BoundaryCondition_init lib ft ''Robin'' m (Tuple (Callable ''r'') (Callable ''s''))
   = Inl (TypeError ''unsupported operand type(s) for -'')"
  by (simp add: BoundaryCondition_init_def and_then_def ufl_sub_def)

lemma robin_refuses_scalar:
  "BoundaryCondition_init lib ft ''Robin'' m (Coefficient ''r'')
   = Inl (IndexError ''a scalar expression cannot be indexed'')"
  by (simp add: BoundaryCondition_init_def and_then_def)

lemma neumann_refuses_function:
  "BoundaryCondition_init lib ft ''Neumann'' m (Callable ''u_ex'')
   = Inl (ValueError ''Invalid type conversion'')"
  by (simp add: BoundaryCondition_init_def and_then_def ufl_inner_def)

subsection \<open>Values of sums and of the Robin integrand\<close>

lemma form_value_append:
  "form_value quad \<rho> (f @ g) = form_value quad \<rho> f + form_value quad \<rho> g"
  by (simp add: form_value_def)

lemma form_value_single: "form_value quad \<rho> [i] = integral_value quad \<rho> i"
  by (simp add: form_value_def)

lemma weighted_sum_split:
  "sum_list (map (\<lambda>(w, q). w * (a q * ((b q - c q) * d q))) ps)
   = sum_list (map (\<lambda>(w, q). w * (a q * (b q * d q))) ps)
     - sum_list (map (\<lambda>(w, q). w * (a q * (c q * d q))) ps)"
  for a :: "'p \<Rightarrow> 'a::comm_ring_1"
  by (induction ps) (auto simp: algebra_simps)

lemma integral_value_robin:
  "integral_value quad \<rho> (Integral (Mul r (Inner (Sub u s) v)) \<mu>)
   = integral_value quad \<rho> (Integral (Mul r (Mul u v)) \<mu>)
     - integral_value quad \<rho> (Integral (Mul r (Mul s v)) \<mu>)"
  using weighted_sum_split [of "\<lambda>q. pointwise (\<rho> q) r" "\<lambda>q. pointwise (\<rho> q) u"
          "\<lambda>q. pointwise (\<rho> q) s" "\<lambda>q. pointwise (\<rho> q) v" "quad \<mu>"]
  by simp

lemma integral_value_inner:
  "integral_value quad \<rho> (Integral (Inner g v) \<mu>)
   = integral_value quad \<rho> (Integral (Mul g v) \<mu>)"
  by simp

subsection \<open>One Robin condition\<close>

text \<open>
  Claim C2. Let \<open>r\<close> and \<open>s\<close> be expressions of the form language and let the library
  accept \<^verbatim>\<open>ds(m)\<close>. For the single specification \<^verbatim>\<open>("Robin", m, (r, s))\<close> the
  operation succeeds, \<^verbatim>\<open>bcs\<close> is empty, and the residual is the base residual followed
  by the one integral \<open>\<integral> r\<cdot>(u - s)\<cdot>v ds(m)\<close>. The value of the result is the value of
  the base residual plus the bilinear term \<open>\<integral> r\<cdot>u\<cdot>v ds(m)\<close> minus \<open>\<integral> r\<cdot>s\<cdot>v ds(m)\<close>,
  for every quadrature and every valuation of the atoms.
\<close>

theorem single_robin:
  assumes "is_expr r" and "is_expr s" and "lib (Call_ds ft m) = None"
  shows "classify_and_accumulate lib ft [(''Robin'', m, Tuple r s)] st
     = (None, \<lparr>F = F st @ [Integral (Mul r (Inner (Sub TrialFunction s) TestFunction)) (Ds ft m)],
               bcs = []\<rparr>)
   \<and> form_value quad \<rho>
        (F (snd (classify_and_accumulate lib ft [(''Robin'', m, Tuple r s)] st)))
     = form_value quad \<rho> (F st)
       + integral_value quad \<rho> (Integral (Mul r (Mul TrialFunction TestFunction)) (Ds ft m))
       - integral_value quad \<rho> (Integral (Mul r (Mul s TestFunction)) (Ds ft m))"
proof -
  have run: "classify_and_accumulate lib ft [(''Robin'', m, Tuple r s)] st
     = (None, \<lparr>F = F st @ [Integral (Mul r (Inner (Sub TrialFunction s) TestFunction)) (Ds ft m)],
               bcs = []\<rparr>)"
    by (simp add: classify_and_accumulate_def init_robin [of r s lib ft m] assms type_of_bc_def bc_def)
  show ?thesis
    unfolding run
    by (simp add: form_value_append form_value_single integral_value_robin
             del: integral_value.simps)
qed

theorem single_robin_witness:
  "classify_and_accumulate (\<lambda>c. None) \<lparr>tag_indices = [7], tag_values = [3]\<rparr>
     [(''Robin'', 3, Tuple (Coefficient ''r'') (Coefficient ''s''))]
     \<lparr>F = [Integral (Coefficient ''f'') Dx], bcs = [Bc_form []]\<rparr>
   = (None,
      \<lparr>F = [Integral (Coefficient ''f'') Dx,
            Integral (Mul (Coefficient ''r'')
              (Inner (Sub TrialFunction (Coefficient ''s'')) TestFunction))
              (Ds \<lparr>tag_indices = [7], tag_values = [3]\<rparr> 3)],
       bcs = []\<rparr>)"
proof -
  have e: "is_expr (Coefficient ''r'')" "is_expr (Coefficient ''s'')" by simp_all
  have l: "(\<lambda>c. None) (Call_ds \<lparr>tag_indices = [7], tag_values = [3]\<rparr> 3) = None" by simp
  show ?thesis
    using single_robin [of "Coefficient ''r''" "Coefficient ''s''" "\<lambda>c. None"
            "\<lparr>tag_indices = [7], tag_values = [3]\<rparr>" 3
            "\<lparr>F = [Integral (Coefficient ''f'') Dx], bcs = [Bc_form []]\<rparr>",
            OF e l, THEN conjunct1]
    by simp
qed

subsection \<open>One Neumann condition\<close>

text \<open>
  Claim C3. Let \<open>g\<close> be an expression of the form language and let the library accept
  \<^verbatim>\<open>ds(m)\<close>. For the single specification \<^verbatim>\<open>("Neumann", m, g)\<close> the operation
  succeeds, \<^verbatim>\<open>bcs\<close> is empty, and the residual is the base residual followed by exactly
  the one integral of \<^verbatim>\<open>inner(g, v)\<close> over \<^verbatim>\<open>ds(m)\<close>, whose value is
  \<open>\<integral> g\<cdot>v ds(m)\<close>.
\<close>

theorem single_neumann:
  assumes "is_expr g" and "lib (Call_ds ft m) = None"
  shows "classify_and_accumulate lib ft [(''Neumann'', m, g)] st
     = (None, \<lparr>F = F st @ [Integral (Inner g TestFunction) (Ds ft m)], bcs = []\<rparr>)
   \<and> form_value quad \<rho> (F (snd (classify_and_accumulate lib ft [(''Neumann'', m, g)] st)))
     = form_value quad \<rho> (F st)
       + integral_value quad \<rho> (Integral (Mul g TestFunction) (Ds ft m))"
proof -
  have run: "classify_and_accumulate lib ft [(''Neumann'', m, g)] st
     = (None, \<lparr>F = F st @ [Integral (Inner g TestFunction) (Ds ft m)], bcs = []\<rparr>)"
    by (simp add: classify_and_accumulate_def init_neumann [of g lib ft m] assms type_of_bc_def bc_def)
  show ?thesis
    unfolding run
    by (simp add: form_value_append form_value_single integral_value_inner
             del: integral_value.simps)
qed

theorem single_neumann_witness:
  "classify_and_accumulate (\<lambda>c. None) \<lparr>tag_indices = [7], tag_values = [4]\<rparr>
     [(''Neumann'', 4, Coefficient ''g'')]
     \<lparr>F = [Integral (Coefficient ''f'') Dx], bcs = [Bc_form []]\<rparr>
   = (None,
      \<lparr>F = [Integral (Coefficient ''f'') Dx,
            Integral (Inner (Coefficient ''g'') TestFunction)
              (Ds \<lparr>tag_indices = [7], tag_values = [4]\<rparr> 4)],
       bcs = []\<rparr>)"
proof -
  have e: "is_expr (Coefficient ''g'')" by simp
  have l: "(\<lambda>c. None) (Call_ds \<lparr>tag_indices = [7], tag_values = [4]\<rparr> 4) = None" by simp
  show ?thesis
    using single_neumann [of "Coefficient ''g''" "\<lambda>c. None"
            "\<lparr>tag_indices = [7], tag_values = [4]\<rparr>" 4
            "\<lparr>F = [Integral (Coefficient ''f'') Dx], bcs = [Bc_form []]\<rparr>",
            OF e l, THEN conjunct1]
    by simp
qed

subsection \<open>Only Dirichlet conditions\<close>

lemma build_dirichlet:
  "accepts lib (dirichlet_calls ft m v) \<Longrightarrow>
   build lib ft (''Dirichlet'', m, v)
   = Inr \<lparr>priv_type = ''Dirichlet'',
          priv_bc = Bc_dirichlet
            (Dirichletbc (Interpolate v) (Locate_dofs_topological (Find ft m)))\<rparr>"
  by (simp add: build_def init_dirichlet)

text \<open>
  Claim C4. When every specification of the list has the kind \<^verbatim>\<open>"Dirichlet"\<close> (and
  the library accepts the calls of the Dirichlet branch for it), the operation succeeds,
  the residual is the base residual itself, and \<^verbatim>\<open>bcs\<close> has one entry per
  specification, in order: the Dirichlet condition that binds the degrees of freedom
  located on the facets tagged with the marker to the interpolation of the prescribed
  values.
\<close>

theorem only_dirichlet:
  assumes "\<forall>sp \<in> set specs.
             fst sp = ''Dirichlet''
             \<and> accepts lib (dirichlet_calls ft (fst (snd sp)) (snd (snd sp)))"
  shows "classify_and_accumulate lib ft specs st
     = (None,
        \<lparr>F = F st,
         bcs = map (\<lambda>(t, m, v). Bc_dirichlet
                 (Dirichletbc (Interpolate v) (Locate_dofs_topological (Find ft m)))) specs\<rparr>)
   \<and> length (bcs (snd (classify_and_accumulate lib ft specs st))) = length specs"
proof -
  have b: "build lib ft sp = Inr \<lparr>priv_type = ''Dirichlet'',
          priv_bc = Bc_dirichlet
            (Dirichletbc (Interpolate (snd (snd sp)))
               (Locate_dofs_topological (Find ft (fst (snd sp)))))\<rparr>"
    if "sp \<in> set specs" for sp
  proof -
    from that assms have d: "fst sp = ''Dirichlet''"
      and a: "accepts lib (dirichlet_calls ft (fst (snd sp)) (snd (snd sp)))"
      by blast+
    from d have "sp = (''Dirichlet'', fst (snd sp), snd (snd sp))"
      by (metis prod.collapse)
    then show ?thesis
      using build_dirichlet [OF a] by simp
  qed
  then have ok: "list_all (\<lambda>sp. \<not> isl (build lib ft sp)) specs"
    by (simp add: list_all_iff)
  have n: "concat (map (\<lambda>sp. natural_terms (projr (build lib ft sp))) specs) = []"
    using b by (simp add: natural_terms_def)
  have e: "concat (map (\<lambda>sp. essential (projr (build lib ft sp))) specs)
         = map (\<lambda>(t, m, v). Bc_dirichlet
                 (Dirichletbc (Interpolate v) (Locate_dofs_topological (Find ft m)))) specs"
    using b by (induction specs) (auto simp: essential_def)
  show ?thesis
    by (simp add: classify_ok [OF ok] n e)
qed

theorem only_dirichlet_witness:
  "classify_and_accumulate (\<lambda>c. None) \<lparr>tag_indices = [7, 9], tag_values = [1, 2]\<rparr>
     [(''Dirichlet'', 1, Callable ''u_ex''), (''Dirichlet'', 2, Callable ''u_ex'')]
     \<lparr>F = [Integral (Coefficient ''f'') Dx], bcs = []\<rparr>
   = (None,
      \<lparr>F = [Integral (Coefficient ''f'') Dx],
       bcs = [Bc_dirichlet (Dirichletbc (Interpolate (Callable ''u_ex''))
                (Locate_dofs_topological (Find \<lparr>tag_indices = [7, 9], tag_values = [1, 2]\<rparr> 1))),
              Bc_dirichlet (Dirichletbc (Interpolate (Callable ''u_ex''))
                (Locate_dofs_topological (Find \<lparr>tag_indices = [7, 9], tag_values = [1, 2]\<rparr> 2)))]\<rparr>)"
  using only_dirichlet [of "[(''Dirichlet'', 1, Callable ''u_ex''), (''Dirichlet'', 2, Callable ''u_ex'')]"
          "\<lambda>c. None" "\<lparr>tag_indices = [7, 9], tag_values = [1, 2]\<rparr>"
          "\<lparr>F = [Integral (Coefficient ''f'') Dx], bcs = []\<rparr>"]
  by (simp add: accepts_def dirichlet_calls_def)

subsection \<open>The scenario of the notebook\<close>

text \<open>
  Claim C5. For the list \<^verbatim>\<open>[Dirichlet(1, u_ex), Dirichlet(2, u_ex), Robin(3, (r, s)),
  Neumann(4, g)]\<close>, with expressions \<^verbatim>\<open>r\<close>, \<^verbatim>\<open>s\<close>, \<^verbatim>\<open>g\<close> of the form language,
  whatever is to be interpolated as \<^verbatim>\<open>u_ex\<close> and whatever facet tags are used (so also
  for \<open>r = 1000\<close>, \<open>s = u_ex\<close>, \<open>g = -4\<close> and the tags of the four sides of the unit
  square), and a library that accepts the calls made, the operation yields exactly two
  Dirichlet conditions, on the markers 1 and 2, and the base residual followed by one
  Robin integral on marker 3 and one Neumann integral on marker 4. The value of the
  residual is the value of the base residual plus the Robin pair (bilinear minus linear
  term) plus the Neumann term.
\<close>

theorem notebook_scenario:
  assumes "is_expr r" and "is_expr s" and "is_expr g"
      and "accepts lib (dirichlet_calls ft 1 u_ex @ dirichlet_calls ft 2 u_ex
                          @ [Call_ds ft 3, Call_ds ft 4])"
  shows "classify_and_accumulate lib ft
     [(''Dirichlet'', 1, u_ex), (''Dirichlet'', 2, u_ex),
      (''Robin'', 3, Tuple r s), (''Neumann'', 4, g)] st
   = (None,
      \<lparr>F = F st @
            [Integral (Mul r (Inner (Sub TrialFunction s) TestFunction)) (Ds ft 3),
             Integral (Inner g TestFunction) (Ds ft 4)],
       bcs = [Bc_dirichlet (Dirichletbc (Interpolate u_ex) (Locate_dofs_topological (Find ft 1))),
              Bc_dirichlet (Dirichletbc (Interpolate u_ex) (Locate_dofs_topological (Find ft 2)))]\<rparr>)
   \<and> length (bcs (snd (classify_and_accumulate lib ft
        [(''Dirichlet'', 1, u_ex), (''Dirichlet'', 2, u_ex),
         (''Robin'', 3, Tuple r s), (''Neumann'', 4, g)] st))) = 2
   \<and> form_value quad \<rho> (F (snd (classify_and_accumulate lib ft
        [(''Dirichlet'', 1, u_ex), (''Dirichlet'', 2, u_ex),
         (''Robin'', 3, Tuple r s), (''Neumann'', 4, g)] st)))
     = form_value quad \<rho> (F st)
       + (integral_value quad \<rho> (Integral (Mul r (Mul TrialFunction TestFunction)) (Ds ft 3))
          - integral_value quad \<rho> (Integral (Mul r (Mul s TestFunction)) (Ds ft 3)))
       + integral_value quad \<rho> (Integral (Mul g TestFunction) (Ds ft 4))"
proof -
  have a: "accepts lib (dirichlet_calls ft 1 u_ex)" "accepts lib (dirichlet_calls ft 2 u_ex)"
          "lib (Call_ds ft 3) = None" "lib (Call_ds ft 4) = None"
    using assms(4) by (simp_all add: accepts_def)
  have run: "classify_and_accumulate lib ft
     [(''Dirichlet'', 1, u_ex), (''Dirichlet'', 2, u_ex),
      (''Robin'', 3, Tuple r s), (''Neumann'', 4, g)] st
   = (None,
      \<lparr>F = F st @
            [Integral (Mul r (Inner (Sub TrialFunction s) TestFunction)) (Ds ft 3),
             Integral (Inner g TestFunction) (Ds ft 4)],
       bcs = [Bc_dirichlet (Dirichletbc (Interpolate u_ex) (Locate_dofs_topological (Find ft 1))),
              Bc_dirichlet (Dirichletbc (Interpolate u_ex) (Locate_dofs_topological (Find ft 2)))]\<rparr>)"
    by (simp add: classify_and_accumulate_def init_dirichlet [OF a(1)] init_dirichlet [OF a(2)]
                  init_robin [of r s lib ft 3] init_neumann [of g lib ft 4] assms(1-3) a(3,4)
                  type_of_bc_def bc_def)
  have split: "[Integral (Mul r (Inner (Sub TrialFunction s) TestFunction)) (Ds ft 3),
             Integral (Inner g TestFunction) (Ds ft 4)]
      = [Integral (Mul r (Inner (Sub TrialFunction s) TestFunction)) (Ds ft 3)]
        @ [Integral (Inner g TestFunction) (Ds ft 4)]"
    by simp
  show ?thesis
    unfolding run split
    by (simp add: form_value_append form_value_single integral_value_robin integral_value_inner
             del: integral_value.simps append.simps)
qed

theorem notebook_scenario_witness:
  "classify_and_accumulate (\<lambda>c. None) \<lparr>tag_indices = [5, 6, 7, 8], tag_values = [1, 2, 3, 4]\<rparr>
     [(''Dirichlet'', 1, Callable ''u_ex''), (''Dirichlet'', 2, Callable ''u_ex''),
      (''Robin'', 3, Tuple (Coefficient ''r'') (Coefficient ''s'')),
      (''Neumann'', 4, Coefficient ''g'')]
     \<lparr>F = [Integral (Coefficient ''a'') Dx, Integral (Coefficient ''L'') Dx], bcs = []\<rparr>
   = (None,
      \<lparr>F = [Integral (Coefficient ''a'') Dx, Integral (Coefficient ''L'') Dx,
            Integral (Mul (Coefficient ''r'')
              (Inner (Sub TrialFunction (Coefficient ''s'')) TestFunction))
              (Ds \<lparr>tag_indices = [5, 6, 7, 8], tag_values = [1, 2, 3, 4]\<rparr> 3),
            Integral (Inner (Coefficient ''g'') TestFunction)
              (Ds \<lparr>tag_indices = [5, 6, 7, 8], tag_values = [1, 2, 3, 4]\<rparr> 4)],
       bcs = [Bc_dirichlet (Dirichletbc (Interpolate (Callable ''u_ex''))
                (Locate_dofs_topological
                   (Find \<lparr>tag_indices = [5, 6, 7, 8], tag_values = [1, 2, 3, 4]\<rparr> 1))),
              Bc_dirichlet (Dirichletbc (Interpolate (Callable ''u_ex''))
                (Locate_dofs_topological
                   (Find \<lparr>tag_indices = [5, 6, 7, 8], tag_values = [1, 2, 3, 4]\<rparr> 2)))]\<rparr>)"
proof -
  let ?ft = "\<lparr>tag_indices = [5, 6, 7, 8], tag_values = [1, 2, 3, 4]\<rparr>"
  have e: "is_expr (Coefficient ''r'')" "is_expr (Coefficient ''s'')" "is_expr (Coefficient ''g'')"
    by simp_all
  have a: "accepts (\<lambda>c. None)
             (dirichlet_calls ?ft 1 (Callable ''u_ex'') @ dirichlet_calls ?ft 2 (Callable ''u_ex'')
                @ [Call_ds ?ft 3, Call_ds ?ft 4])"
    by (simp add: accepts_def dirichlet_calls_def)
  show ?thesis
    using notebook_scenario [of "Coefficient ''r''" "Coefficient ''s''" "Coefficient ''g''"
            "\<lambda>c. None" ?ft "Callable ''u_ex''"
            "\<lparr>F = [Integral (Coefficient ''a'') Dx, Integral (Coefficient ''L'') Dx], bcs = []\<rparr>",
            OF e a, THEN conjunct1]
    by simp
qed

subsection \<open>The order of the specifications\<close>

lemma mset_concat_map:
  "mset (concat (map f xs)) = sum_mset (image_mset (\<lambda>x. mset (f x)) (mset xs))"
  by (induction xs) simp_all

lemma form_value_mset:
  assumes "mset f = mset g"
  shows "form_value quad \<rho> f = form_value quad \<rho> g"
proof -
  have "form_value quad \<rho> h = sum_mset (image_mset (integral_value quad \<rho>) (mset h))" for h
    unfolding form_value_def by (metis mset_map sum_mset_sum_list)
  then show ?thesis using assms by simp
qed

lemma all_ok_mset:
  assumes "mset xs = mset ys"
  shows "list_all P xs = list_all P ys"
  using assms by (metis list_all_iff mset_eq_setD)

text \<open>
  Claim C6. Let one specification list be a permutation of another. Then the operation
  fails on both or succeeds on both; the two residuals have the same integrals with the
  same multiplicities (they are the same sum up to the order of its terms) and therefore
  the same value; and the two lists \<^verbatim>\<open>bcs\<close> hold the same Dirichlet conditions, as sets
  and with multiplicities. This holds for every library.
\<close>

theorem order_independence:
  assumes "mset specs' = mset specs"
  shows "(fst (classify_and_accumulate lib ft specs' st) = None
            \<longleftrightarrow> fst (classify_and_accumulate lib ft specs st) = None)
         \<and> mset (F (snd (classify_and_accumulate lib ft specs' st)))
           = mset (F (snd (classify_and_accumulate lib ft specs st)))
         \<and> form_value quad \<rho> (F (snd (classify_and_accumulate lib ft specs' st)))
           = form_value quad \<rho> (F (snd (classify_and_accumulate lib ft specs st)))
         \<and> set (bcs (snd (classify_and_accumulate lib ft specs' st)))
           = set (bcs (snd (classify_and_accumulate lib ft specs st)))
         \<and> mset (bcs (snd (classify_and_accumulate lib ft specs' st)))
           = mset (bcs (snd (classify_and_accumulate lib ft specs st)))"
proof (cases "list_all (\<lambda>sp. \<not> isl (build lib ft sp)) specs")
  case True
  then have ok': "list_all (\<lambda>sp. \<not> isl (build lib ft sp)) specs'"
    using all_ok_mset [OF assms] by simp
  have f: "mset (F (snd (classify_and_accumulate lib ft specs' st)))
           = mset (F (snd (classify_and_accumulate lib ft specs st)))"
    by (simp add: classify_ok [OF True] classify_ok [OF ok'] mset_concat_map assms)
  have b: "mset (bcs (snd (classify_and_accumulate lib ft specs' st)))
           = mset (bcs (snd (classify_and_accumulate lib ft specs st)))"
    by (simp add: classify_ok [OF True] classify_ok [OF ok'] mset_concat_map assms)
  have e: "fst (classify_and_accumulate lib ft specs' st) = None"
          "fst (classify_and_accumulate lib ft specs st) = None"
    by (simp_all add: classify_ok [OF True] classify_ok [OF ok'])
  from f b e show ?thesis
    using form_value_mset [OF f] mset_eq_setD [OF b] by simp
next
  case False
  then have bad': "\<not> list_all (\<lambda>sp. \<not> isl (build lib ft sp)) specs'"
    using all_ok_mset [OF assms] by simp
  obtain e where e: "classify_and_accumulate lib ft specs st = (Some e, st)"
    using classify_bad [OF False] by blast
  obtain e' where e': "classify_and_accumulate lib ft specs' st = (Some e', st)"
    using classify_bad [OF bad'] by blast
  show ?thesis by (simp add: e e')
qed

theorem order_independence_witness:
  "mset (F (snd (classify_and_accumulate (\<lambda>c. None) \<lparr>tag_indices = [7], tag_values = [3]\<rparr>
        [(''Neumann'', 4, Coefficient ''g''), (''Dirichlet'', 1, Callable ''u_ex''),
         (''Robin'', 3, Tuple (Coefficient ''r'') (Coefficient ''s''))]
        \<lparr>F = [Integral (Coefficient ''f'') Dx], bcs = []\<rparr>)))
   = mset (F (snd (classify_and_accumulate (\<lambda>c. None) \<lparr>tag_indices = [7], tag_values = [3]\<rparr>
        [(''Dirichlet'', 1, Callable ''u_ex''),
         (''Robin'', 3, Tuple (Coefficient ''r'') (Coefficient ''s'')),
         (''Neumann'', 4, Coefficient ''g'')]
        \<lparr>F = [Integral (Coefficient ''f'') Dx], bcs = []\<rparr>)))
   \<and> F (snd (classify_and_accumulate (\<lambda>c. None) \<lparr>tag_indices = [7], tag_values = [3]\<rparr>
        [(''Neumann'', 4, Coefficient ''g''), (''Dirichlet'', 1, Callable ''u_ex''),
         (''Robin'', 3, Tuple (Coefficient ''r'') (Coefficient ''s''))]
        \<lparr>F = [Integral (Coefficient ''f'') Dx], bcs = []\<rparr>))
     = [Integral (Coefficient ''f'') Dx,
        Integral (Inner (Coefficient ''g'') TestFunction)
          (Ds \<lparr>tag_indices = [7], tag_values = [3]\<rparr> 4),
        Integral (Mul (Coefficient ''r'')
          (Inner (Sub TrialFunction (Coefficient ''s'')) TestFunction))
          (Ds \<lparr>tag_indices = [7], tag_values = [3]\<rparr> 3)]"
proof -
  have m: "mset [(''Neumann'', 4 :: int, Coefficient ''g''), (''Dirichlet'', 1, Callable ''u_ex''),
         (''Robin'', 3, Tuple (Coefficient ''r'') (Coefficient ''s''))]
      = mset [(''Dirichlet'', 1, Callable ''u_ex''),
         (''Robin'', 3, Tuple (Coefficient ''r'') (Coefficient ''s'')),
         (''Neumann'', 4, Coefficient ''g'')]"
    by simp
  have v: "F (snd (classify_and_accumulate (\<lambda>c. None) \<lparr>tag_indices = [7], tag_values = [3]\<rparr>
        [(''Neumann'', 4, Coefficient ''g''), (''Dirichlet'', 1, Callable ''u_ex''),
         (''Robin'', 3, Tuple (Coefficient ''r'') (Coefficient ''s''))]
        \<lparr>F = [Integral (Coefficient ''f'') Dx], bcs = []\<rparr>))
     = [Integral (Coefficient ''f'') Dx,
        Integral (Inner (Coefficient ''g'') TestFunction)
          (Ds \<lparr>tag_indices = [7], tag_values = [3]\<rparr> 4),
        Integral (Mul (Coefficient ''r'')
          (Inner (Sub TrialFunction (Coefficient ''s'')) TestFunction))
          (Ds \<lparr>tag_indices = [7], tag_values = [3]\<rparr> 3)]"
    by (simp add: classify_and_accumulate_def BoundaryCondition_init_def and_then_def call_def
                  ufl_inner_def ufl_sub_def ufl_mul_def type_of_bc_def bc_def)
  from order_independence [OF m, of "\<lambda>c. None" "\<lparr>tag_indices = [7], tag_values = [3]\<rparr>"
         "\<lparr>F = [Integral (Coefficient ''f'') Dx], bcs = []\<rparr>", THEN conjunct2, THEN conjunct1]
  show ?thesis
    using v by blast
qed

subsection \<open>Markers are not looked at\<close>

lemma build_suited_accepted:
  assumes "suited sp" and "accepts lib (library_calls ft sp)"
  shows "\<not> isl (build lib ft sp)"
proof -
  obtain t m v where sp: "sp = (t, m, v)" by (cases sp)
  consider (d) "t = ''Dirichlet''" | (n) "t = ''Neumann''" "is_expr v"
    | (r) r s where "t = ''Robin''" "v = Tuple r s" "is_expr r" "is_expr s"
    using assms(1) unfolding sp by (auto split: obj.splits)
  then show ?thesis
  proof cases
    case d
    then show ?thesis
      using assms(2) unfolding sp by (simp add: build_def init_dirichlet)
  next
    case n
    then show ?thesis
      using assms(2) unfolding sp by (simp add: build_def init_neumann accepts_def)
  next
    case r
    then show ?thesis
      using assms(2) unfolding sp by (simp add: build_def init_robin accepts_def)
  qed
qed

lemma build_suited_error:
  assumes "suited sp" and "build lib ft sp = Inl e"
  shows "\<exists>c \<in> set (library_calls ft sp). lib c = Some e"
proof -
  obtain t m v where sp: "sp = (t, m, v)" by (cases sp)
  consider (d) "t = ''Dirichlet''" | (n) "t = ''Neumann''" "is_expr v"
    | (r) r s where "t = ''Robin''" "v = Tuple r s" "is_expr r" "is_expr s"
    using assms(1) unfolding sp by (auto split: obj.splits)
  then show ?thesis
  proof cases
    case d
    then show ?thesis
      using assms(2) unfolding sp
      by (auto simp: build_def BoundaryCondition_init_def and_then_def call_def
                     dirichlet_calls_def
               split: option.splits)
  next
    case n
    then show ?thesis
      using assms(2) unfolding sp
      by (auto simp: build_def BoundaryCondition_init_def and_then_def call_def ufl_inner_def
               split: option.splits)
  next
    case r
    then show ?thesis
      using assms(2) unfolding sp
      by (auto simp: build_def BoundaryCondition_init_def and_then_def call_def ufl_inner_def
                     ufl_sub_def ufl_mul_def
               split: option.splits)
  qed
qed

text \<open>
  Claim C7. The notebook's own code never inspects a marker; it only hands it to the
  library. Take specifications of the three supported kinds whose values suit their
  kind, with any markers, in particular markers that tag no facet, and any library.
  If the library accepts the calls the constructor makes for them, the list is built
  and the loop ends without an exception. If the operation raises, the exception is one
  that a library call made for one of the specifications raised: the component adds no
  failure of its own. What the library does with a marker that tags no facet, and what
  the later assembly does, is not part of the notebook and is left open.
\<close>

theorem unknown_marker_completes:
  assumes "\<forall>sp \<in> set specs. suited sp"
  shows "(accepts lib (concat (map (library_calls ft) specs)) \<longrightarrow>
            \<not> isl (construct lib ft specs)
            \<and> fst (classify_and_accumulate lib ft specs st) = None)
         \<and> (\<forall>e. fst (classify_and_accumulate lib ft specs st) = Some e \<longrightarrow>
               (\<exists>c \<in> set (concat (map (library_calls ft) specs)). lib c = Some e))"
proof -
  have completes: "\<not> isl (construct lib ft specs)
                   \<and> fst (classify_and_accumulate lib ft specs st) = None"
    if a: "accepts lib (concat (map (library_calls ft) specs))"
  proof -
    have "accepts lib (library_calls ft sp)" if "sp \<in> set specs" for sp
      using a that by (auto simp: accepts_def list_all_iff)
    then have ok: "list_all (\<lambda>sp. \<not> isl (build lib ft sp)) specs"
      using assms build_suited_accepted by (auto simp: list_all_iff)
    show ?thesis
      by (simp add: classify_ok [OF ok] construct_all_ok [OF ok])
  qed
  have source: "\<exists>c \<in> set (concat (map (library_calls ft) specs)). lib c = Some e"
    if "fst (classify_and_accumulate lib ft specs st) = Some e" for e
  proof -
    from classify_error_source [OF that] obtain sp where
      sp: "sp \<in> set specs" "build lib ft sp = Inl e"
      by blast
    with assms have "suited sp" by blast
    from build_suited_error [OF this sp(2)] obtain c where
      "c \<in> set (library_calls ft sp)" "lib c = Some e"
      by blast
    with sp(1) show ?thesis by auto
  qed
  from completes source show ?thesis by blast
qed

theorem unknown_marker_completes_witness:
  "99 \<notin> set (tag_values \<lparr>tag_indices = [7, 9], tag_values = [1, 2]\<rparr>)
   \<and> classify_and_accumulate (\<lambda>c. None) \<lparr>tag_indices = [7, 9], tag_values = [1, 2]\<rparr>
       [(''Dirichlet'', 99, Callable ''u_ex''), (''Neumann'', 99, Coefficient ''g''),
        (''Robin'', 99, Tuple (Coefficient ''r'') (Coefficient ''s''))]
       \<lparr>F = [], bcs = []\<rparr>
     = (None,
        \<lparr>F = [Integral (Inner (Coefficient ''g'') TestFunction)
                (Ds \<lparr>tag_indices = [7, 9], tag_values = [1, 2]\<rparr> 99),
              Integral (Mul (Coefficient ''r'')
                (Inner (Sub TrialFunction (Coefficient ''s'')) TestFunction))
                (Ds \<lparr>tag_indices = [7, 9], tag_values = [1, 2]\<rparr> 99)],
         bcs = [Bc_dirichlet (Dirichletbc (Interpolate (Callable ''u_ex''))
                 (Locate_dofs_topological
                    (Find \<lparr>tag_indices = [7, 9], tag_values = [1, 2]\<rparr> 99)))]\<rparr>)
   \<and> fst (classify_and_accumulate
        ((\<lambda>c. None)(Call_find \<lparr>tag_indices = [7, 9], tag_values = [1, 2]\<rparr> 99
                      \<mapsto> ValueError ''marker not found''))
        \<lparr>tag_indices = [7, 9], tag_values = [1, 2]\<rparr>
        [(''Neumann'', 99, Coefficient ''g''), (''Dirichlet'', 99, Callable ''u_ex'')]
        \<lparr>F = [], bcs = []\<rparr>)
     = Some (ValueError ''marker not found'')"
proof -
  let ?ft = "\<lparr>tag_indices = [7, 9], tag_values = [1, 2]\<rparr>"
  let ?specs = "[(''Dirichlet'', 99, Callable ''u_ex''), (''Neumann'', 99, Coefficient ''g''),
        (''Robin'', 99, Tuple (Coefficient ''r'') (Coefficient ''s''))]"
  have s: "\<forall>sp \<in> set ?specs. suited sp" by simp
  have a: "accepts (\<lambda>c. None) (concat (map (library_calls ?ft) ?specs))"
    by (simp add: accepts_def dirichlet_calls_def)
  from unknown_marker_completes [OF s, of "\<lambda>c. None" ?ft "\<lparr>F = [], bcs = []\<rparr>"] a
  have "fst (classify_and_accumulate (\<lambda>c. None) ?ft ?specs \<lparr>F = [], bcs = []\<rparr>) = None"
    by blast
  then show ?thesis
    by (simp add: classify_and_accumulate_def BoundaryCondition_init_def and_then_def call_def
                  ufl_inner_def ufl_sub_def ufl_mul_def type_of_bc_def bc_def)
qed

subsection \<open>The tagging cell\<close>

lemma astype_int32_id: "in_int32 x \<Longrightarrow> astype_int32 x = x"
  by (simp add: in_int32_def astype_int32_def)

lemma full_like_fits:
  "in_int32 marker \<Longrightarrow> full_like np a marker = Inr (replicate (length a) marker)"
  by (simp add: full_like_def)

lemma tag_loop_closed:
  assumes "list_all (\<lambda>(m, l). in_int32 m) bs"
  shows "tag_loop np locate bs (fi, fm)
   = Inr (fi @ map (\<lambda>(m, l). locate l) bs,
          fm @ map (\<lambda>(m, l). replicate (length (locate l)) m) bs)"
  using assms
  by (induction bs arbitrary: fi fm) (auto simp: Let_def full_like_fits)

lemma hstack_nonempty: "arrays \<noteq> [] \<Longrightarrow> hstack arrays = Inr (concat arrays)"
  by (cases arrays) simp_all

lemma zip_concat_map:
  assumes "\<And>b. length (f b) = length (g b)"
  shows "zip (concat (map f bs)) (concat (map g bs)) = concat (map (\<lambda>b. zip (f b) (g b)) bs)"
  by (induction bs) (simp_all add: assms)

lemma length_concat_map:
  assumes "\<And>b. length (f b) = length (g b)"
  shows "length (concat (map f bs)) = length (concat (map g bs))"
  by (induction bs) (simp_all add: assms)

lemma zip_replicate_right: "zip xs (replicate (length xs) y) = map (\<lambda>x. (x, y)) xs"
  by (induction xs) simp_all

lemma stacked_zip:
  "zip (concat (map (\<lambda>(m, l). locate l) bs))
       (concat (map (\<lambda>(m, l). replicate (length (locate l)) m) bs))
   = located_pairs locate bs"
proof -
  have "zip (concat (map (\<lambda>(m, l). locate l) bs))
            (concat (map (\<lambda>(m, l). replicate (length (locate l)) m) bs))
      = concat (map (\<lambda>b. zip ((\<lambda>(m, l). locate l) b)
                               ((\<lambda>(m, l). replicate (length (locate l)) m) b)) bs)"
    by (rule zip_concat_map) (simp split: prod.splits)
  also have "\<dots> = located_pairs locate bs"
    by (induction bs) (auto simp: located_pairs_def zip_replicate_right)
  finally show ?thesis .
qed

lemma stacked_length:
  "length (concat (map (\<lambda>(m, l). locate l) bs))
   = length (concat (map (\<lambda>(m, l). replicate (length (locate l)) m) bs))"
  by (rule length_concat_map) (simp split: prod.splits)

lemma argsort_in_range:
  assumes "is_argsort p a"
  shows "list_all (\<lambda>i. i < length a) p"
proof -
  from assms have "set p = set [0..<length a]"
    unfolding is_argsort_def by (metis mset_eq_setD)
  then show ?thesis by (simp add: list_all_iff)
qed

lemma mset_map_nth:
  assumes "mset p = mset [0..<length xs]"
  shows "mset (map (\<lambda>i. xs ! i) p) = mset xs"
proof -
  have "mset (map (\<lambda>i. xs ! i) p) = image_mset (\<lambda>i. xs ! i) (mset [0..<length xs])"
    using assms by (metis mset_map)
  also have "\<dots> = mset (map (\<lambda>i. xs ! i) [0..<length xs])" by simp
  also have "\<dots> = mset xs" by (simp add: map_nth)
  finally show ?thesis .
qed

lemma zip_map_nth:
  assumes "length xs = length ys" and "list_all (\<lambda>i. i < length xs) p"
  shows "zip (map (\<lambda>i. xs ! i) p) (map (\<lambda>i. ys ! i) p) = map (\<lambda>i. zip xs ys ! i) p"
  using assms by (induction p) simp_all

lemma fits_markers:
  "fits_int32 locate bs \<Longrightarrow> list_all (\<lambda>(m, l). in_int32 m) bs"
  by (auto simp: fits_int32_def list_all_iff)

lemma fits_indices:
  assumes "fits_int32 locate bs"
  shows "map astype_int32 (concat (map (\<lambda>(m, l). locate l) bs))
         = concat (map (\<lambda>(m, l). locate l) bs)"
proof (rule map_idI)
  fix x assume "x \<in> set (concat (map (\<lambda>(m, l). locate l) bs))"
  then have "in_int32 x"
    using assms by (auto simp: fits_int32_def list_all_iff)
  then show "astype_int32 x = x" by (rule astype_int32_id)
qed

lemma fits_marker_array:
  assumes "fits_int32 locate bs"
  shows "map astype_int32 (concat (map (\<lambda>(m, l). replicate (length (locate l)) m) bs))
         = concat (map (\<lambda>(m, l). replicate (length (locate l)) m) bs)"
proof (rule map_idI)
  fix x assume "x \<in> set (concat (map (\<lambda>(m, l). replicate (length (locate l)) m) bs))"
  then have "in_int32 x"
    using assms by (auto simp: fits_int32_def list_all_iff)
  then show "astype_int32 x = x" by (rule astype_int32_id)
qed

text \<open>With no boundary at all the cell stops at \<^verbatim>\<open>np.hstack\<close>.\<close>

lemma facet_tagging_no_boundaries:
  "facet_tagging np locate argsort [] = Inl (ValueError ''need at least one array to concatenate'')"
  by (simp add: facet_tagging_def)

text \<open>
  Claim C10, as amended. For a list of boundaries that is not empty, markers and facet
  indices that fit in 32 bits, and an \<^verbatim>\<open>argsort\<close> that returns a sorting permutation
  of the stacked facet indices, the cell builds the tags without an exception, under
  either version of the array library. The two arrays handed to \<^verbatim>\<open>meshtags\<close> have
  the same length, the facet indices are in non-decreasing order, and the entries at
  equal positions are the (facet, marker) pairs of the loop, reordered by the one
  permutation \<^verbatim>\<open>argsort\<close> returned: every facet is still paired with the marker of the
  boundary whose locator found it, with the same multiplicities.
\<close>

theorem facet_tagging_pairing:
  assumes "boundaries \<noteq> []"
      and "fits_int32 locate boundaries"
      and "is_argsort (argsort (facet_index_array locate boundaries))
             (facet_index_array locate boundaries)"
  shows "\<exists>ft. facet_tagging np locate argsort boundaries = Inr ft
           \<and> length (tag_indices ft) = length (tag_values ft)
           \<and> sorted (tag_indices ft)
           \<and> mset (argsort (facet_index_array locate boundaries))
               = mset [0..<length (located_pairs locate boundaries)]
           \<and> zip (tag_indices ft) (tag_values ft)
               = map (\<lambda>i. located_pairs locate boundaries ! i)
                   (argsort (facet_index_array locate boundaries))
           \<and> mset (zip (tag_indices ft) (tag_values ft))
               = mset (located_pairs locate boundaries)"
proof -
  define xs where "xs = facet_index_array locate boundaries"
  define ms where
    "ms = concat (map (\<lambda>(m, l). replicate (length (locate l)) m) boundaries)"
  define pairs where "pairs = located_pairs locate boundaries"
  define p where "p = argsort xs"
  have xs: "xs = concat (map (\<lambda>(m, l). locate l) boundaries)"
    unfolding xs_def facet_index_array_def using fits_indices [OF assms(2)] by simp
  have len: "length xs = length ms"
    unfolding xs ms_def by (rule stacked_length)
  have zip_eq: "zip xs ms = pairs"
    unfolding xs ms_def pairs_def by (rule stacked_zip)
  have len_pairs: "length pairs = length xs"
    using zip_eq len by (metis length_zip min.idem)
  have arg: "is_argsort p xs"
    using assms(3) by (simp add: p_def xs_def)
  then have in_range: "list_all (\<lambda>i. i < length xs) p"
    by (rule argsort_in_range)
  then have in_range': "list_all (\<lambda>i. i < length ms) p"
    using len by simp
  have perm: "mset p = mset [0..<length xs]" and srt: "sorted (map (\<lambda>i. xs ! i) p)"
    using arg by (simp_all add: is_argsort_def)
  have loop: "tag_loop np locate boundaries ([], [])
              = Inr (map (\<lambda>(m, l). locate l) boundaries,
                     map (\<lambda>(m, l). replicate (length (locate l)) m) boundaries)"
    using tag_loop_closed [OF fits_markers [OF assms(2)], of np locate "[]" "[]"] by simp
  have ms_fits: "map astype_int32 ms = ms"
    unfolding ms_def by (rule fits_marker_array [OF assms(2)])
  have run: "facet_tagging np locate argsort boundaries
             = Inr \<lparr>tag_indices = map (\<lambda>i. xs ! i) p, tag_values = map (\<lambda>i. ms ! i) p\<rparr>"
    using assms(1) in_range in_range'
    by (simp add: facet_tagging_def loop hstack_nonempty take_indices_def Let_def
                  ms_def [symmetric] ms_fits
                  xs_def [symmetric, unfolded facet_index_array_def] p_def [symmetric])
  have z: "zip (map (\<lambda>i. xs ! i) p) (map (\<lambda>i. ms ! i) p) = map (\<lambda>i. pairs ! i) p"
    using zip_map_nth [OF len in_range] zip_eq by simp
  have m: "mset (map (\<lambda>i. pairs ! i) p) = mset pairs"
    by (rule mset_map_nth) (simp add: perm len_pairs)
  define ft where
    "ft = \<lparr>tag_indices = map (\<lambda>i. xs ! i) p, tag_values = map (\<lambda>i. ms ! i) p\<rparr>"
  have c0: "facet_tagging np locate argsort boundaries = Inr ft"
    by (simp add: run ft_def)
  have c1: "length (tag_indices ft) = length (tag_values ft)"
    by (simp add: ft_def)
  have c2: "sorted (tag_indices ft)"
    using srt by (simp add: ft_def)
  have c3: "mset p = mset [0..<length pairs]"
    using perm len_pairs by simp
  have c4: "zip (tag_indices ft) (tag_values ft) = map (\<lambda>i. pairs ! i) p"
    using z by (simp add: ft_def)
  have c5: "mset (zip (tag_indices ft) (tag_values ft)) = mset pairs"
    using c4 m by simp
  from c0 c1 c2 c3 c4 c5 show ?thesis
    unfolding p_def xs_def pairs_def by blast
qed

theorem facet_tagging_pairing_witness:
  "facet_tagging NumPy_2 (\<lambda>l. if l = ''left'' then [5, 2] else [9, 3]) (\<lambda>a. [1, 3, 0, 2])
     [(1, ''left''), (2, ''right'')]
   = Inr \<lparr>tag_indices = [2, 3, 5, 9], tag_values = [1, 2, 1, 2]\<rparr>
   \<and> mset (zip [2, 3, 5, 9] [1, 2, 1, 2]) = mset [(5, 1), (2, 1), (9, 2), (3, 2 :: int)]
   \<and> sorted [2, 3, 5, 9 :: int]"
proof -
  let ?locate = "\<lambda>l. if l = ''left'' then [5, 2] else [9, 3 :: int]"
  let ?argsort = "\<lambda>a :: int list. [1, 3, 0, 2 :: nat]"
  let ?bs = "[(1 :: int, ''left''), (2, ''right'')]"
  have arr: "facet_index_array ?locate ?bs = [5, 2, 9, 3]"
    by (simp add: facet_index_array_def astype_int32_def)
  have h1: "?bs \<noteq> []" by simp
  have h2: "fits_int32 ?locate ?bs"
    by (simp add: fits_int32_def in_int32_def)
  have h3: "is_argsort (?argsort (facet_index_array ?locate ?bs)) (facet_index_array ?locate ?bs)"
    unfolding arr by (simp add: is_argsort_def upt_rec eval_nat_numeral)
  have lp: "located_pairs ?locate ?bs = [(5, 1), (2, 1), (9, 2), (3, 2)]"
    by (simp add: located_pairs_def)
  have v: "facet_tagging NumPy_2 ?locate ?argsort ?bs
           = Inr \<lparr>tag_indices = [2, 3, 5, 9], tag_values = [1, 2, 1, 2]\<rparr>"
    by (simp add: facet_tagging_def full_like_def in_int32_def take_indices_def astype_int32_def)
  show ?thesis
    using facet_tagging_pairing [OF h1 h2 h3, of NumPy_2]
    unfolding v lp by simp
qed

text \<open>
  Claim C10 as it was worded fails without the two conditions. For the one boundary with
  marker 2147483648 and facets 2 and 5, version 1 of the array library stores
  -2147483648 in the marker array, so the facets are not paired with the marker of their
  boundary, and version 2 raises; for the empty list of boundaries \<^verbatim>\<open>np.hstack\<close>
  raises and nothing is handed to \<^verbatim>\<open>meshtags\<close>. Here the locator is the list of
  facets it finds, and \<^verbatim>\<open>argsort\<close> answers with the positions in order, which sorts
  the facets used.
\<close>

theorem facet_tagging_counterexample:
  "facet_tagging NumPy_1 id (upt 0 \<circ> length) [(2147483648, [2, 5])]
     = Inr \<lparr>tag_indices = [2, 5], tag_values = [- 2147483648, - 2147483648]\<rparr>
   \<and> located_pairs id [(2147483648, [2, 5])] = [(2, 2147483648), (5, 2147483648)]
   \<and> zip [2, 5] [- 2147483648, - 2147483648] \<noteq> [(2, 2147483648), (5, 2147483648 :: int)]
   \<and> is_argsort ((upt 0 \<circ> length) (facet_index_array id [(2147483648, [2, 5])]))
        (facet_index_array id [(2147483648, [2, 5])])
   \<and> facet_tagging NumPy_2 id (upt 0 \<circ> length) [(2147483648, [2, 5])]
     = Inl (OverflowError ''Python integer out of bounds for int32'')
   \<and> facet_tagging NumPy_1 id (upt 0 \<circ> length) ([] :: (int \<times> int list) list)
     = Inl (ValueError ''need at least one array to concatenate'')
   \<and> facet_tagging NumPy_2 id (upt 0 \<circ> length) ([] :: (int \<times> int list) list)
     = Inl (ValueError ''need at least one array to concatenate'')"
proof -
  have a: "facet_index_array id [(2147483648, [2, 5 :: int])] = [2, 5]"
    by (simp add: facet_index_array_def astype_int32_def)
  show ?thesis
    unfolding a
    by (simp add: facet_tagging_def full_like_def in_int32_def in_64_bits_def take_indices_def
                  astype_int32_def located_pairs_def is_argsort_def upt_rec eval_nat_numeral)
qed

subsection \<open>The object store\<close>

text \<open>The loop on the store computes what the loop on values computes, and writes only
  to the list \<^verbatim>\<open>bcs\<close> and to new addresses.\<close>

lemma heap_loop_refines:
  assumes "heap mem (var_F mem) = Some (Form_object f)"
      and "heap mem (var_bcs mem) = Some (Bcs_list bl)"
      and "var_F mem < next_addr mem"
      and "var_bcs mem < next_addr mem"
  shows "\<exists>mem'. heap_loop cs mem = (fst (aggregate cs \<lparr>F = f, bcs = bl\<rparr>), mem')
           \<and> heap mem' (var_F mem') = Some (Form_object (F (snd (aggregate cs \<lparr>F = f, bcs = bl\<rparr>))))
           \<and> var_bcs mem' = var_bcs mem
           \<and> heap mem' (var_bcs mem) = Some (Bcs_list (bcs (snd (aggregate cs \<lparr>F = f, bcs = bl\<rparr>))))
           \<and> var_boundary_conditions mem' = var_boundary_conditions mem
           \<and> next_addr mem \<le> next_addr mem'
           \<and> (\<forall>a. a < next_addr mem \<and> a \<noteq> var_bcs mem \<longrightarrow> heap mem' a = heap mem a)"
  using assms
proof (induction cs arbitrary: mem f bl)
  case Nil
  then show ?case by simp
next
  case (Cons c cs)
  have ne: "var_F mem \<noteq> var_bcs mem"
    using Cons.prems(1,2) by auto
  show ?case
  proof (cases "type_of_bc c = ''Dirichlet''")
    case True
    define mem1 where
      "mem1 = mem\<lparr>heap := (heap mem)(var_bcs mem \<mapsto> Bcs_list (bl @ [bc c]))\<rparr>"
    have step: "heap_loop (c # cs) mem = heap_loop cs mem1"
      using True Cons.prems(2) by (simp add: mem1_def)
    have astep: "aggregate (c # cs) \<lparr>F = f, bcs = bl\<rparr> = aggregate cs \<lparr>F = f, bcs = bl @ [bc c]\<rparr>"
      using True by simp
    have p: "heap mem1 (var_F mem1) = Some (Form_object f)"
            "heap mem1 (var_bcs mem1) = Some (Bcs_list (bl @ [bc c]))"
            "var_F mem1 < next_addr mem1" "var_bcs mem1 < next_addr mem1"
      using Cons.prems ne by (simp_all add: mem1_def)
    from Cons.IH [OF p] obtain mem' where
      ih: "heap_loop cs mem1 = (fst (aggregate cs \<lparr>F = f, bcs = bl @ [bc c]\<rparr>), mem')"
          "heap mem' (var_F mem')
             = Some (Form_object (F (snd (aggregate cs \<lparr>F = f, bcs = bl @ [bc c]\<rparr>))))"
          "var_bcs mem' = var_bcs mem1"
          "heap mem' (var_bcs mem1)
             = Some (Bcs_list (bcs (snd (aggregate cs \<lparr>F = f, bcs = bl @ [bc c]\<rparr>))))"
          "var_boundary_conditions mem' = var_boundary_conditions mem1"
          "next_addr mem1 \<le> next_addr mem'"
          "\<forall>a. a < next_addr mem1 \<and> a \<noteq> var_bcs mem1 \<longrightarrow> heap mem' a = heap mem1 a"
      by blast
    have m1: "var_bcs mem1 = var_bcs mem" "next_addr mem1 = next_addr mem"
             "var_boundary_conditions mem1 = var_boundary_conditions mem"
             "\<And>a. a \<noteq> var_bcs mem \<Longrightarrow> heap mem1 a = heap mem a"
      by (simp_all add: mem1_def)
    show ?thesis
      unfolding step astep
      using ih m1 by (intro exI [of _ mem']) simp
  next
    case False
    show ?thesis
    proof (cases "bc c")
      case (Bc_dirichlet d)
      then show ?thesis
        using False Cons.prems by simp
    next
      case (Bc_form g)
      define mem1 where
        "mem1 = mem\<lparr>heap := (heap mem)(next_addr mem \<mapsto> Form_object (f @ g)),
                    next_addr := Suc (next_addr mem), var_F := next_addr mem\<rparr>"
      have step: "heap_loop (c # cs) mem = heap_loop cs mem1"
        using False Bc_form Cons.prems(1) by (simp add: mem1_def alloc_def)
      have astep: "aggregate (c # cs) \<lparr>F = f, bcs = bl\<rparr> = aggregate cs \<lparr>F = f @ g, bcs = bl\<rparr>"
        using False Bc_form by simp
      have p: "heap mem1 (var_F mem1) = Some (Form_object (f @ g))"
              "heap mem1 (var_bcs mem1) = Some (Bcs_list bl)"
              "var_F mem1 < next_addr mem1" "var_bcs mem1 < next_addr mem1"
        using Cons.prems by (simp_all add: mem1_def)
      from Cons.IH [OF p] obtain mem' where
        ih: "heap_loop cs mem1 = (fst (aggregate cs \<lparr>F = f @ g, bcs = bl\<rparr>), mem')"
            "heap mem' (var_F mem')
               = Some (Form_object (F (snd (aggregate cs \<lparr>F = f @ g, bcs = bl\<rparr>))))"
            "var_bcs mem' = var_bcs mem1"
            "heap mem' (var_bcs mem1)
               = Some (Bcs_list (bcs (snd (aggregate cs \<lparr>F = f @ g, bcs = bl\<rparr>))))"
            "var_boundary_conditions mem' = var_boundary_conditions mem1"
            "next_addr mem1 \<le> next_addr mem'"
            "\<forall>a. a < next_addr mem1 \<and> a \<noteq> var_bcs mem1 \<longrightarrow> heap mem' a = heap mem1 a"
        by blast
      have m1: "var_bcs mem1 = var_bcs mem" "next_addr mem1 = Suc (next_addr mem)"
               "var_boundary_conditions mem1 = var_boundary_conditions mem"
               "\<And>a. a < next_addr mem \<Longrightarrow> heap mem1 a = heap mem a"
        by (simp_all add: mem1_def)
      have frame: "\<forall>a. a < next_addr mem \<and> a \<noteq> var_bcs mem \<longrightarrow> heap mem' a = heap mem a"
        using ih(7) m1 by (metis less_Suc_eq)
      show ?thesis
        unfolding step astep
        using ih(1-6) m1(1-3) frame by (intro exI [of _ mem']) simp
    qed
  qed
qed


lemma aggregation_cell_refines:
  assumes "heap mem (var_F mem) = Some (Form_object f)"
      and "heap mem (var_boundary_conditions mem) = Some (Conditions_list cs)"
      and "var_F mem < next_addr mem"
      and "var_boundary_conditions mem < next_addr mem"
  shows "\<exists>mem'. aggregation_cell mem = (fst (aggregate cs \<lparr>F = f, bcs = []\<rparr>), mem')
           \<and> heap mem' (var_F mem') = Some (Form_object (F (snd (aggregate cs \<lparr>F = f, bcs = []\<rparr>))))
           \<and> heap mem' (var_bcs mem') = Some (Bcs_list (bcs (snd (aggregate cs \<lparr>F = f, bcs = []\<rparr>))))
           \<and> var_boundary_conditions mem' = var_boundary_conditions mem
           \<and> (\<forall>a. a < next_addr mem \<longrightarrow> heap mem' a = heap mem a)"
proof -
  define mem1 where
    "mem1 = mem\<lparr>heap := (heap mem)(next_addr mem \<mapsto> Bcs_list []),
                next_addr := Suc (next_addr mem), var_bcs := next_addr mem\<rparr>"
  have cell: "aggregation_cell mem = heap_loop cs mem1"
    using assms(2,4) by (simp add: aggregation_cell_def alloc_def mem1_def Let_def)
  have p: "heap mem1 (var_F mem1) = Some (Form_object f)"
          "heap mem1 (var_bcs mem1) = Some (Bcs_list [])"
          "var_F mem1 < next_addr mem1" "var_bcs mem1 < next_addr mem1"
    using assms(1,3) by (simp_all add: mem1_def)
  from heap_loop_refines [OF p, of cs] obtain mem' where
    r: "heap_loop cs mem1 = (fst (aggregate cs \<lparr>F = f, bcs = []\<rparr>), mem')"
       "heap mem' (var_F mem') = Some (Form_object (F (snd (aggregate cs \<lparr>F = f, bcs = []\<rparr>))))"
       "var_bcs mem' = var_bcs mem1"
       "heap mem' (var_bcs mem1) = Some (Bcs_list (bcs (snd (aggregate cs \<lparr>F = f, bcs = []\<rparr>))))"
       "var_boundary_conditions mem' = var_boundary_conditions mem1"
       "\<forall>a. a < next_addr mem1 \<and> a \<noteq> var_bcs mem1 \<longrightarrow> heap mem' a = heap mem1 a"
    by blast
  have m1: "var_bcs mem1 = next_addr mem" "next_addr mem1 = Suc (next_addr mem)"
           "var_boundary_conditions mem1 = var_boundary_conditions mem"
           "\<And>a. a < next_addr mem \<Longrightarrow> heap mem1 a = heap mem a"
    by (simp_all add: mem1_def)
  have frame: "\<forall>a. a < next_addr mem \<longrightarrow> heap mem' a = heap mem a"
    using r(6) m1 by (metis less_Suc_eq nat_neq_iff)
  show ?thesis
    unfolding cell
    using r(1-5) m1(1-3) frame by (intro exI [of _ mem']) simp
qed

lemma notebook_cells_fail:
  assumes "construct lib ft specs = Inl e"
  shows "notebook_cells lib ft specs mem = (Some e, mem)"
    and "classify_and_accumulate lib ft specs st = (Some e, st)"
  using assms by (simp_all add: notebook_cells_def classify_and_accumulate_def)

lemma notebook_cells_refines:
  assumes "construct lib ft specs = Inr cs"
      and "heap mem (var_F mem) = Some (Form_object f)"
      and "var_F mem < next_addr mem"
  shows "\<exists>mem'. notebook_cells lib ft specs mem
                  = (fst (classify_and_accumulate lib ft specs \<lparr>F = f, bcs = old\<rparr>), mem')
           \<and> heap mem' (var_F mem')
               = Some (Form_object (F (snd (classify_and_accumulate lib ft specs \<lparr>F = f, bcs = old\<rparr>))))
           \<and> heap mem' (var_bcs mem')
               = Some (Bcs_list (bcs (snd (classify_and_accumulate lib ft specs \<lparr>F = f, bcs = old\<rparr>))))
           \<and> heap mem' (var_boundary_conditions mem') = Some (Conditions_list cs)
           \<and> (\<forall>a. a < next_addr mem \<longrightarrow> heap mem' a = heap mem a)"
proof -
  define mem0 where
    "mem0 = mem\<lparr>heap := (heap mem)(next_addr mem \<mapsto> Conditions_list cs),
                next_addr := Suc (next_addr mem),
                var_boundary_conditions := next_addr mem\<rparr>"
  have cells: "notebook_cells lib ft specs mem = aggregation_cell mem0"
    using assms(1) by (simp add: notebook_cells_def alloc_def mem0_def)
  have val: "classify_and_accumulate lib ft specs \<lparr>F = f, bcs = old\<rparr>
             = aggregate cs \<lparr>F = f, bcs = []\<rparr>"
    using assms(1) by (simp add: classify_and_accumulate_def)
  have p: "heap mem0 (var_F mem0) = Some (Form_object f)"
          "heap mem0 (var_boundary_conditions mem0) = Some (Conditions_list cs)"
          "var_F mem0 < next_addr mem0" "var_boundary_conditions mem0 < next_addr mem0"
    using assms(2,3) by (simp_all add: mem0_def)
  from aggregation_cell_refines [OF p] obtain mem' where
    r: "aggregation_cell mem0 = (fst (aggregate cs \<lparr>F = f, bcs = []\<rparr>), mem')"
       "heap mem' (var_F mem') = Some (Form_object (F (snd (aggregate cs \<lparr>F = f, bcs = []\<rparr>))))"
       "heap mem' (var_bcs mem') = Some (Bcs_list (bcs (snd (aggregate cs \<lparr>F = f, bcs = []\<rparr>))))"
       "var_boundary_conditions mem' = var_boundary_conditions mem0"
       "\<forall>a. a < next_addr mem0 \<longrightarrow> heap mem' a = heap mem0 a"
    by blast
  have m0: "var_boundary_conditions mem0 = next_addr mem" "next_addr mem0 = Suc (next_addr mem)"
           "heap mem0 (next_addr mem) = Some (Conditions_list cs)"
           "\<And>a. a < next_addr mem \<Longrightarrow> heap mem0 a = heap mem a"
    by (simp_all add: mem0_def)
  have kept: "heap mem' (var_boundary_conditions mem') = Some (Conditions_list cs)"
    using r(4,5) m0(1-3) by simp
  have frame: "\<forall>a. a < next_addr mem \<longrightarrow> heap mem' a = heap mem a"
    using r(5) m0(2,4) by (metis less_Suc_eq)
  show ?thesis
    unfolding cells val
    using r(1-3) kept frame by (intro exI [of _ mem']) simp
qed

text \<open>
  Claim C8. Take two stores in which the name \<^verbatim>\<open>F\<close> is bound to forms with the same
  integrals; they may differ in everything else, for instance in what an earlier run
  left in \<^verbatim>\<open>bcs\<close>. Running the two cells on the same specifications hands back the
  same result from both: the same exception, or equal forms and equal lists. The result
  is the one of the operation on values, which depends on the specifications and on the
  base residual only, not on the previous content of \<^verbatim>\<open>bcs\<close>. Every object that
  existed before the run is unchanged after it, the base residual among them (the name
  \<^verbatim>\<open>F\<close> is bound to a new form), and the list \<^verbatim>\<open>boundary_conditions\<close> holds after
  the loop exactly the conditions that were constructed. This holds for every library.
\<close>

theorem pure_transformation:
  assumes "heap mem (var_F mem) = Some (Form_object f)" and "var_F mem < next_addr mem"
      and "heap mem2 (var_F mem2) = Some (Form_object f)" and "var_F mem2 < next_addr mem2"
  shows "outputs (notebook_cells lib ft specs mem) = outputs (notebook_cells lib ft specs mem2)
         \<and> outputs (notebook_cells lib ft specs mem)
           = outputs_of_state (classify_and_accumulate lib ft specs \<lparr>F = f, bcs = old\<rparr>)
         \<and> (\<forall>a. a < next_addr mem \<longrightarrow> heap (snd (notebook_cells lib ft specs mem)) a = heap mem a)
         \<and> heap (snd (notebook_cells lib ft specs mem)) (var_F mem) = Some (Form_object f)
         \<and> (\<forall>cs. construct lib ft specs = Inr cs \<longrightarrow>
               heap (snd (notebook_cells lib ft specs mem))
                 (var_boundary_conditions (snd (notebook_cells lib ft specs mem)))
               = Some (Conditions_list cs))"
proof -
  have one: "outputs (notebook_cells lib ft specs m)
             = outputs_of_state (classify_and_accumulate lib ft specs \<lparr>F = f, bcs = old\<rparr>)
         \<and> (\<forall>a. a < next_addr m \<longrightarrow> heap (snd (notebook_cells lib ft specs m)) a = heap m a)
         \<and> (\<forall>cs. construct lib ft specs = Inr cs \<longrightarrow>
               heap (snd (notebook_cells lib ft specs m))
                 (var_boundary_conditions (snd (notebook_cells lib ft specs m)))
               = Some (Conditions_list cs))"
    if h: "heap m (var_F m) = Some (Form_object f)" "var_F m < next_addr m" for m
  proof (cases "construct lib ft specs")
    case (Inl e)
    then show ?thesis
      by (simp add: notebook_cells_fail outputs_def outputs_of_state_def)
  next
    case (Inr cs)
    from notebook_cells_refines [OF Inr h, of old] obtain m' where
      r: "notebook_cells lib ft specs m
            = (fst (classify_and_accumulate lib ft specs \<lparr>F = f, bcs = old\<rparr>), m')"
         "heap m' (var_F m')
            = Some (Form_object (F (snd (classify_and_accumulate lib ft specs \<lparr>F = f, bcs = old\<rparr>))))"
         "heap m' (var_bcs m')
            = Some (Bcs_list (bcs (snd (classify_and_accumulate lib ft specs \<lparr>F = f, bcs = old\<rparr>))))"
         "heap m' (var_boundary_conditions m') = Some (Conditions_list cs)"
         "\<forall>a. a < next_addr m \<longrightarrow> heap m' a = heap m a"
      by blast
    have o: "outputs (notebook_cells lib ft specs m)
             = outputs_of_state (classify_and_accumulate lib ft specs \<lparr>F = f, bcs = old\<rparr>)"
      unfolding r(1)
      by (cases "classify_and_accumulate lib ft specs \<lparr>F = f, bcs = old\<rparr>")
         (auto simp: outputs_def outputs_of_state_def r(2,3) split: option.splits)
    show ?thesis
      using o r(4,5) Inr by (simp add: r(1))
  qed
  from one [OF assms(1,2)] one [OF assms(3,4)] assms(1,2) show ?thesis
    by simp
qed


theorem pure_transformation_witness:
  "outputs (notebook_cells (\<lambda>c. None) \<lparr>tag_indices = [7], tag_values = [1]\<rparr>
      [(''Dirichlet'', 1, Callable ''u_ex''), (''Neumann'', 4, Coefficient ''g'')]
      \<lparr>heap = [0 \<mapsto> Form_object [Integral (Coefficient ''f'') Dx]], next_addr = 1,
       var_F = 0, var_bcs = 5, var_boundary_conditions = 6\<rparr>)
   = Inr (Some (Form_object [Integral (Coefficient ''f'') Dx,
                  Integral (Inner (Coefficient ''g'') TestFunction)
                    (Ds \<lparr>tag_indices = [7], tag_values = [1]\<rparr> 4)]),
          Some (Bcs_list [Bc_dirichlet (Dirichletbc (Interpolate (Callable ''u_ex''))
                  (Locate_dofs_topological (Find \<lparr>tag_indices = [7], tag_values = [1]\<rparr> 1)))]))
   \<and> outputs (notebook_cells (\<lambda>c. None) \<lparr>tag_indices = [7], tag_values = [1]\<rparr>
      [(''Dirichlet'', 1, Callable ''u_ex''), (''Neumann'', 4, Coefficient ''g'')]
      \<lparr>heap = [0 \<mapsto> Bcs_list [Bc_form []],
               1 \<mapsto> Form_object [Integral (Coefficient ''f'') Dx]], next_addr = 3,
       var_F = 1, var_bcs = 0, var_boundary_conditions = 2\<rparr>)
   = Inr (Some (Form_object [Integral (Coefficient ''f'') Dx,
                  Integral (Inner (Coefficient ''g'') TestFunction)
                    (Ds \<lparr>tag_indices = [7], tag_values = [1]\<rparr> 4)]),
          Some (Bcs_list [Bc_dirichlet (Dirichletbc (Interpolate (Callable ''u_ex''))
                  (Locate_dofs_topological (Find \<lparr>tag_indices = [7], tag_values = [1]\<rparr> 1)))]))
   \<and> heap (snd (notebook_cells (\<lambda>c. None) \<lparr>tag_indices = [7], tag_values = [1]\<rparr>
      [(''Dirichlet'', 1, Callable ''u_ex''), (''Neumann'', 4, Coefficient ''g'')]
      \<lparr>heap = [0 \<mapsto> Form_object [Integral (Coefficient ''f'') Dx]], next_addr = 1,
       var_F = 0, var_bcs = 5, var_boundary_conditions = 6\<rparr>)) 0
     = Some (Form_object [Integral (Coefficient ''f'') Dx])"
proof -
  let ?ft = "\<lparr>tag_indices = [7], tag_values = [1]\<rparr>"
  let ?specs = "[(''Dirichlet'', 1, Callable ''u_ex''), (''Neumann'', 4, Coefficient ''g'')]"
  let ?f = "[Integral (Coefficient ''f'') Dx]"
  let ?mem = "\<lparr>heap = [0 \<mapsto> Form_object ?f], next_addr = 1,
               var_F = 0, var_bcs = 5, var_boundary_conditions = 6\<rparr>"
  let ?mem2 = "\<lparr>heap = [0 \<mapsto> Bcs_list [Bc_form []], 1 \<mapsto> Form_object ?f], next_addr = 3,
                var_F = 1, var_bcs = 0, var_boundary_conditions = 2\<rparr>"
  have h1: "heap ?mem (var_F ?mem) = Some (Form_object ?f)" by simp
  have h2: "var_F ?mem < next_addr ?mem" by simp
  have h3: "heap ?mem2 (var_F ?mem2) = Some (Form_object ?f)" by simp
  have h4: "var_F ?mem2 < next_addr ?mem2" by simp
  have v: "outputs_of_state (classify_and_accumulate (\<lambda>c. None) ?ft ?specs \<lparr>F = ?f, bcs = []\<rparr>)
           = Inr (Some (Form_object [Integral (Coefficient ''f'') Dx,
                  Integral (Inner (Coefficient ''g'') TestFunction) (Ds ?ft 4)]),
                  Some (Bcs_list [Bc_dirichlet (Dirichletbc (Interpolate (Callable ''u_ex''))
                     (Locate_dofs_topological (Find ?ft 1)))]))"
    by (simp add: classify_and_accumulate_def BoundaryCondition_init_def and_then_def call_def
                  ufl_inner_def type_of_bc_def bc_def outputs_of_state_def)
  from pure_transformation [OF h1 h2 h3 h4, of "\<lambda>c. None" ?ft ?specs "[]"]
  have a: "outputs (notebook_cells (\<lambda>c. None) ?ft ?specs ?mem) = outputs (notebook_cells (\<lambda>c. None) ?ft ?specs ?mem2)"
    and b: "outputs (notebook_cells (\<lambda>c. None) ?ft ?specs ?mem)
            = outputs_of_state (classify_and_accumulate (\<lambda>c. None) ?ft ?specs \<lparr>F = ?f, bcs = []\<rparr>)"
    and c: "heap (snd (notebook_cells (\<lambda>c. None) ?ft ?specs ?mem)) (var_F ?mem) = Some (Form_object ?f)"
    by blast+
  have c': "heap (snd (notebook_cells (\<lambda>c. None) ?ft ?specs ?mem)) 0 = Some (Form_object ?f)"
    using c by simp
  have b': "outputs (notebook_cells (\<lambda>c. None) ?ft ?specs ?mem2)
            = outputs_of_state (classify_and_accumulate (\<lambda>c. None) ?ft ?specs \<lparr>F = ?f, bcs = []\<rparr>)"
    using a b by simp
  show ?thesis
    unfolding b b' v using c' by simp
qed

end
